theory Spec2Isabelle
  imports Complex_Main "HOL-Library.Word" "HOL-Library.AList"
begin

section \<open>Numeric values\<close>

text \<open>
  The program computes with NumPy and TensorFlow \<open>float64\<close> values. A finite value is
  modelled by the real number it stands for (rounding, overflow and the sign of zero are
  idealised away); the three special values of IEEE arithmetic are kept, because the
  source divides without a guard and compares against \<open>np.inf\<close> and \<open>np.nan\<close>.
\<close>

datatype float64 = Fin real | PInf | NInf | NaN

fun np_isnan :: "float64 \<Rightarrow> bool" where
  "np_isnan NaN = True"
| "np_isnan _ = False"

text \<open>Comparisons: every comparison with \<open>NaN\<close> is false.\<close>

fun fl_lt :: "float64 \<Rightarrow> float64 \<Rightarrow> bool" where
  "fl_lt NaN _ = False"
| "fl_lt _ NaN = False"
| "fl_lt (Fin a) (Fin b) = (a < b)"
| "fl_lt _ NInf = False"
| "fl_lt NInf _ = True"
| "fl_lt PInf _ = False"
| "fl_lt _ PInf = True"

fun fl_le :: "float64 \<Rightarrow> float64 \<Rightarrow> bool" where
  "fl_le NaN _ = False"
| "fl_le _ NaN = False"
| "fl_le (Fin a) (Fin b) = (a \<le> b)"
| "fl_le NInf _ = True"
| "fl_le _ PInf = True"
| "fl_le _ NInf = False"
| "fl_le PInf _ = False"

fun fl_add :: "float64 \<Rightarrow> float64 \<Rightarrow> float64" where
  "fl_add NaN _ = NaN"
| "fl_add _ NaN = NaN"
| "fl_add (Fin a) (Fin b) = Fin (a + b)"
| "fl_add PInf NInf = NaN"
| "fl_add NInf PInf = NaN"
| "fl_add PInf _ = PInf"
| "fl_add _ PInf = PInf"
| "fl_add NInf _ = NInf"
| "fl_add _ NInf = NInf"

fun fl_neg :: "float64 \<Rightarrow> float64" where
  "fl_neg (Fin a) = Fin (- a)"
| "fl_neg PInf = NInf"
| "fl_neg NInf = PInf"
| "fl_neg NaN = NaN"

definition fl_sub :: "float64 \<Rightarrow> float64 \<Rightarrow> float64" where
  "fl_sub x y = fl_add x (fl_neg y)"

text \<open>The sign of a value, for products and quotients with an infinity: 1, 0 or -1.\<close>

fun fl_sgn :: "float64 \<Rightarrow> int" where
  "fl_sgn (Fin a) = (if a < 0 then - 1 else if a = 0 then 0 else 1)"
| "fl_sgn PInf = 1"
| "fl_sgn NInf = - 1"
| "fl_sgn NaN = 0"

definition inf_of_sign :: "int \<Rightarrow> float64" where
  "inf_of_sign s = (if s < 0 then NInf else PInf)"

fun fl_mul :: "float64 \<Rightarrow> float64 \<Rightarrow> float64" where
  "fl_mul NaN _ = NaN"
| "fl_mul _ NaN = NaN"
| "fl_mul (Fin a) (Fin b) = Fin (a * b)"
| "fl_mul x y =
     (if fl_sgn x = 0 \<or> fl_sgn y = 0 then NaN else inf_of_sign (fl_sgn x * fl_sgn y))"

text \<open>
  Division as NumPy does it on \<open>float64\<close>: no exception, \<open>0/0\<close> is \<open>nan\<close>, a non-zero
  value over zero is an infinity with the sign of the numerator.
\<close>

fun fl_div :: "float64 \<Rightarrow> float64 \<Rightarrow> float64" where
  "fl_div NaN _ = NaN"
| "fl_div _ NaN = NaN"
| "fl_div (Fin a) (Fin b) =
     (if b = 0 then (if a = 0 then NaN else if 0 < a then PInf else NInf) else Fin (a / b))"
| "fl_div (Fin a) _ = Fin 0"
| "fl_div x (Fin b) = inf_of_sign (fl_sgn x * (if b < 0 then - 1 else 1))"
| "fl_div _ _ = NaN"

fun np_sqrt :: "float64 \<Rightarrow> float64" where
  "np_sqrt (Fin a) = (if a < 0 then NaN else Fin (sqrt a))"
| "np_sqrt PInf = PInf"
| "np_sqrt _ = NaN"

definition np_square :: "float64 \<Rightarrow> float64" where
  "np_square x = fl_mul x x"

definition np_sum :: "float64 list \<Rightarrow> float64" where
  "np_sum xs = foldr fl_add xs (Fin 0)"

text \<open>\<open>np.mean\<close>: the sum over the number of elements; \<open>nan\<close> for an empty array.\<close>

definition np_mean :: "float64 list \<Rightarrow> float64" where
  "np_mean xs = fl_div (np_sum xs) (Fin (real (length xs)))"

section \<open>GP metrics on the predicted standard deviations\<close>

text \<open>
  \<^verbatim>\<open>return np.sqrt(np.mean(np.square(self.stddevs)))\<close>
\<close>

definition sharpness :: "real list \<Rightarrow> float64" where
  "sharpness stddevs = np_sqrt (np_mean (map (\<lambda>s. np_square (Fin s)) stddevs))"

text \<open>
  \<^verbatim>\<open>stdev_mean = self.stddevs.mean()
coeff_var = np.sqrt(np.sum(np.square(self.stddevs - stdev_mean)))
coeff_var /= stdev_mean * (len(self.stddevs) - 1)\<close>
\<close>

definition variation :: "real list \<Rightarrow> float64" where
  "variation stddevs =
     (let stdev_mean = np_mean (map Fin stddevs);
          coeff_var = np_sqrt (np_sum (map (\<lambda>s. np_square (fl_sub (Fin s) stdev_mean)) stddevs))
      in fl_div coeff_var (fl_mul stdev_mean (Fin (real_of_int (int (length stddevs) - 1)))))"

text \<open>The quantities the specification names, over the reals.\<close>

definition mean_of :: "real list \<Rightarrow> real" where
  "mean_of xs = sum_list xs / real (length xs)"

definition population_stddev :: "real list \<Rightarrow> real" where
  "population_stddev xs = sqrt (sum_list (map (\<lambda>x. (x - mean_of xs)\<^sup>2) xs) / real (length xs))"

definition root_mean_square :: "real list \<Rightarrow> real" where
  "root_mean_square xs = sqrt (sum_list (map (\<lambda>x. x\<^sup>2) xs) / real (length xs))"

section \<open>Arrays and errors\<close>

text \<open>
  An array or tensor is its shape and its elements in row-major order. Every exception the
  modelled code can raise (of Python, NumPy or TensorFlow) is a value of \<open>py_error\<close>; a function that can raise returns
  \<open>py_error + 'a\<close>, with \<open>Inl\<close> for the exception.
\<close>

record ndarray =
  shape :: "nat list"
  elems :: "real list"

definition wf_array :: "ndarray \<Rightarrow> bool" where
  "wf_array a = (length (elems a) = prod_list (shape a))"

datatype py_error =
    IndexError
  | TypeError string
  | ValueError string
  | KeyError string
  | AttributeError string
  | InvalidArgumentError string

section \<open>Index-point conversion\<close>

text \<open>
  \<open>tf.constant(value, dtype, shape)\<close> in eager mode: the elements are reshaped when their
  number fits the requested shape, a single element fills the shape, and anything else is a
  \<open>TypeError\<close>.
\<close>

definition tf_constant :: "real list \<Rightarrow> nat list \<Rightarrow> py_error + ndarray" where
  "tf_constant vals shp =
     (if length vals = prod_list shp then Inr \<lparr>shape = shp, elems = vals\<rparr>
      else if length vals = 1 then Inr \<lparr>shape = shp, elems = replicate (prod_list shp) (hd vals)\<rparr>
      else Inl (TypeError ''Eager execution of tf.constant with unsupported shape''))"

text \<open>
  \<^verbatim>\<open>shape = array.shape
shape += (1,) * (shape[1] - 1)
return tf.constant(array, dtype=tf.float64, shape=shape)\<close>

  \<open>shape[1]\<close> raises \<open>IndexError\<close> on an array of fewer than two dimensions; a tuple
  repeated a negative number of times is empty. The local name \<open>shape\<close> is rebound, the
  array is not touched.
\<close>

definition convert_index_points :: "ndarray \<Rightarrow> py_error + ndarray" where
  "convert_index_points array =
     (if length (shape array) < 2 then Inl IndexError
      else tf_constant (elems array)
             (shape array @ replicate (nat (int (shape array ! 1) - 1)) 1))"

section \<open>GP metrics\<close>

text \<open>
  The attributes of a \<open>GPMetrics\<close> object that hold data. Its regression model \<open>gprm\<close>
  refers to the trainer's variables and is read through the trainer (see below).
\<close>

record gp_metrics =
  val_points :: ndarray
  val_obs :: "real list"
  mean :: "real list"
  stddevs :: "real list"

text \<open>
  Elementwise arithmetic of NumPy on two one-dimensional arrays: equal lengths, or one of
  them of length 1 (broadcast); otherwise a \<open>ValueError\<close>.
\<close>

definition np_elementwise :: "(real \<Rightarrow> real \<Rightarrow> 'a) \<Rightarrow> real list \<Rightarrow> real list \<Rightarrow> py_error + 'a list" where
  "np_elementwise f xs ys =
     (if length xs = length ys then Inr (map2 f xs ys)
      else if length ys = 1 then Inr (map (\<lambda>x. f x (hd ys)) xs)
      else if length xs = 1 then Inr (map (\<lambda>y. f (hd xs) y) ys)
      else Inl (ValueError ''operands could not be broadcast together''))"

text \<open>\<^verbatim>\<open>return self.mean - self.val_obs.numpy()\<close>\<close>

definition residuals :: "gp_metrics \<Rightarrow> py_error + real list" where
  "residuals gm = np_elementwise (\<lambda>m y. m - y) (mean gm) (val_obs gm)"

text \<open>\<open>np.linspace(start, stop, num)\<close>, end point included.\<close>

definition np_linspace :: "real \<Rightarrow> real \<Rightarrow> nat \<Rightarrow> real list" where
  "np_linspace start stop num =
     map (\<lambda>i. start + real i * ((stop - start) / real (num - 1))) [0..<num]"

text \<open>
  \<^verbatim>\<open>norm_resids = self.residuals / self.stddevs
norm = tfd.Normal(0, 1)
predicted_pi = np.linspace(0, 1, 100)
bounds = norm.quantile(predicted_pi).numpy()
observed_pi = np.array([np.count_nonzero(norm_resids <= bound) for bound in bounds])
observed_pi = observed_pi / norm_resids.size
return predicted_pi, observed_pi\<close>

  The quantile function of the standard normal distribution belongs to TensorFlow
  Probability; it is the parameter \<open>quantile\<close>.
\<close>

definition pis :: "(real \<Rightarrow> float64) \<Rightarrow> gp_metrics \<Rightarrow> py_error + (real list \<times> float64 list)" where
  "pis quantile gm =
     (case residuals gm of
        Inl e \<Rightarrow> Inl e
      | Inr res \<Rightarrow>
          (case np_elementwise (\<lambda>r s. fl_div (Fin r) (Fin s)) res (stddevs gm) of
             Inl e \<Rightarrow> Inl e
           | Inr norm_resids \<Rightarrow>
               (let predicted_pi = np_linspace 0 1 100;
                    bounds = map quantile predicted_pi;
                    observed_pi =
                      map (\<lambda>bound. length (filter (\<lambda>r. fl_le r bound) norm_resids)) bounds
                in Inr (predicted_pi,
                     map (\<lambda>c. fl_div (Fin (real c)) (Fin (real (length norm_resids))))
                       observed_pi))))"

text \<open>
  \<^verbatim>\<open>predicted_pi, observed_pi = self.pis
return np.sum(np.square(predicted_pi - observed_pi))\<close>
\<close>

definition calibration_err :: "(real \<Rightarrow> float64) \<Rightarrow> gp_metrics \<Rightarrow> py_error + float64" where
  "calibration_err quantile gm =
     (case pis quantile gm of
        Inl e \<Rightarrow> Inl e
      | Inr (predicted_pi, observed_pi) \<Rightarrow>
          Inr (np_sum (map2 (\<lambda>p ob. np_square (fl_sub (Fin p) ob)) predicted_pi observed_pi)))"

text \<open>
  \<^verbatim>\<open>return tf.losses.mae(self.val_obs, self.mean).numpy()\<close>: the mean of the absolute
  differences. TensorFlow broadcasts the two tensors as NumPy does; where their shapes do
  not fit, it raises \<open>tf.errors.InvalidArgumentError\<close>.
\<close>

definition mae :: "gp_metrics \<Rightarrow> py_error + float64" where
  "mae gm =
     (case np_elementwise (\<lambda>m y. Fin \<bar>m - y\<bar>) (mean gm) (val_obs gm) of
        Inl e \<Rightarrow> Inl (InvalidArgumentError ''Incompatible shapes'')
      | Inr ds \<Rightarrow> Inr (np_mean ds))"

text \<open>The normalised residual of validation point \<open>j\<close>: its residual over its predicted
  standard deviation.\<close>

definition norm_resid :: "gp_metrics \<Rightarrow> nat \<Rightarrow> float64" where
  "norm_resid gm j = fl_div (Fin (mean gm ! j - val_obs gm ! j)) (Fin (stddevs gm ! j))"

section \<open>The GP trainer\<close>

subsection \<open>TensorFlow and TensorFlow Probability\<close>

text \<open>
  The numerical library is a parameter of the model: the Gaussian process prior and its
  gradient, the Adam optimizer with its state \<open>'o\<close>, the regression model's constructor,
  mean, standard deviation and log probability, and the normal quantile function. Every
  call that computes on tensors can raise (shapes that do not fit, a matrix that has no
  Cholesky factor), so it returns an error or its value. A theorem below that speaks of a
  library \<open>lib\<close> holds for every library. A kernel and a regression model refer to the
  trainer's variables; the model builds them from the trainer's current values whenever
  they are read.
\<close>

record kernel =
  k_amplitude :: float64
  k_length_scale :: float64
  k_feature_ndims :: nat

record gprm =
  gprm_kernel :: kernel
  gprm_index_points :: ndarray
  gprm_observation_index_points :: ndarray
  gprm_observations :: ndarray

record 'o tfp =
  adam :: 'o
  gp_log_prob :: "kernel \<Rightarrow> ndarray \<Rightarrow> ndarray \<Rightarrow> py_error + float64"
  tape_gradient :: "kernel \<Rightarrow> ndarray \<Rightarrow> ndarray \<Rightarrow> py_error + float64 \<times> float64"
  apply_gradients ::
    "'o \<Rightarrow> float64 \<times> float64 \<Rightarrow> float64 \<times> float64 \<Rightarrow> py_error + (float64 \<times> float64) \<times> 'o"
  gprm_init :: "gprm \<Rightarrow> py_error option"
  gprm_mean :: "gprm \<Rightarrow> py_error + real list"
  gprm_stddev :: "gprm \<Rightarrow> py_error + real list"
  gprm_log_prob :: "gprm \<Rightarrow> real list \<Rightarrow> py_error + float64"
  normal_quantile :: "real \<Rightarrow> float64"

subsection \<open>Trainer, checkpoints and program state\<close>

record 'o gp_trainer =
  observation_index_points :: ndarray
  observations :: ndarray
  amplitude :: float64
  length_scale :: float64
  feature_ndims :: nat
  optimizer :: 'o
  training_steps :: "32 word"
  loss :: float64
  metrics :: "string \<rightharpoonup> float64"
  ckpt_manager :: "string option"

text \<open>The variables that \<open>tf.train.Checkpoint\<close> tracks in \<open>__init__\<close>.\<close>

record checkpoint =
  ckpt_step :: "32 word"
  ckpt_amp :: float64
  ckpt_ls :: float64
  ckpt_loss :: float64
  ckpt_val_nll :: float64
  ckpt_val_mae :: float64
  ckpt_val_sharpness :: float64
  ckpt_val_coeff_var :: float64
  ckpt_val_cal_err :: float64

text \<open>
  What a call can change besides its trainer: the Python list objects that hold metric
  names (by identity), the latest checkpoint of each checkpoint directory
  (\<open>max_to_keep=1\<close>), and the saved models.
\<close>

record 'o state =
  self :: "'o gp_trainer"
  lists :: "nat \<Rightarrow> string list"
  ckpt_files :: "string \<rightharpoonup> checkpoint"
  saved_models :: "string \<rightharpoonup> 'o gp_trainer"

text \<open>Python truth values of an optional integer and an optional path string.\<close>

definition truthy_int :: "int option \<Rightarrow> bool" where
  "truthy_int p = (case p of None \<Rightarrow> False | Some n \<Rightarrow> n \<noteq> 0)"

definition truthy_str :: "string option \<Rightarrow> bool" where
  "truthy_str p = (case p of None \<Rightarrow> False | Some d \<Rightarrow> d \<noteq> [])"

subsection \<open>Construction\<close>

definition initial_metrics :: "string \<rightharpoonup> float64" where
  "initial_metrics =
     [''nll'' \<mapsto> NaN, ''mae'' \<mapsto> NaN, ''sharpness'' \<mapsto> NaN, ''variation'' \<mapsto> NaN,
      ''calibration_err'' \<mapsto> NaN]"

text \<open>\<open>self.ckpt.restore(path)\<close>: every tracked variable takes the checkpoint's value.\<close>

definition restore :: "checkpoint \<Rightarrow> 'o gp_trainer \<Rightarrow> 'o gp_trainer" where
  "restore c t =
     t\<lparr>training_steps := ckpt_step c, amplitude := ckpt_amp c, length_scale := ckpt_ls c,
       loss := ckpt_loss c,
       metrics := (metrics t)(''nll'' \<mapsto> ckpt_val_nll c, ''mae'' \<mapsto> ckpt_val_mae c,
         ''sharpness'' \<mapsto> ckpt_val_sharpness c, ''variation'' \<mapsto> ckpt_val_coeff_var c,
         ''calibration_err'' \<mapsto> ckpt_val_cal_err c)\<rparr>"

text \<open>
  \<open>GPTrainer.__init__\<close>. The two arrays become variables with no comparison between
  them. \<open>observation_index_points.shape[1]\<close> raises \<open>IndexError\<close> on fewer than two
  dimensions, and the kernel's constructor refuses a \<open>feature_ndims\<close> that is not greater
  than zero. With a checkpoint directory, the latest checkpoint there (if any) is restored.
\<close>

definition GPTrainer_init ::
  "'o tfp \<Rightarrow> ndarray \<Rightarrow> ndarray \<Rightarrow> string option \<Rightarrow> (string \<rightharpoonup> checkpoint)
     \<Rightarrow> py_error + 'o gp_trainer" where
  "GPTrainer_init lib ips obs checkpoint_dir files =
     (if length (shape ips) < 2 then Inl IndexError
      else if shape ips ! 1 = 0
      then Inl (ValueError ''`feature_ndims` must be a Python `integer` greater than zero'')
      else
        (let t = \<lparr>observation_index_points = ips, observations = obs,
                   amplitude = Fin 1, length_scale = Fin 1, feature_ndims = shape ips ! 1,
                   optimizer = adam lib, training_steps = 0, loss = NaN,
                   metrics = initial_metrics, ckpt_manager = None\<rparr>
         in if truthy_str checkpoint_dir
            then (let t' = t\<lparr>ckpt_manager := checkpoint_dir\<rparr>
                  in case files (the checkpoint_dir) of
                       None \<Rightarrow> Inr t'
                     | Some c \<Rightarrow> Inr (restore c t'))
            else Inr t))"

subsection \<open>Prediction\<close>

definition kernel_of :: "'o gp_trainer \<Rightarrow> kernel" where
  "kernel_of t =
     \<lparr>k_amplitude = amplitude t, k_length_scale = length_scale t,
      k_feature_ndims = feature_ndims t\<rparr>"

text \<open>
  The regression model for \<open>points\<close> as it reads the trainer's variables now: the arguments
  of \<open>tfd.GaussianProcessRegressionModel\<close> in \<open>get_model\<close>.
\<close>

definition regression_model :: "'o gp_trainer \<Rightarrow> ndarray \<Rightarrow> gprm" where
  "regression_model t points =
     \<lparr>gprm_kernel = kernel_of t, gprm_index_points = points,
      gprm_observation_index_points = observation_index_points t,
      gprm_observations = observations t\<rparr>"

text \<open>
  \<^verbatim>\<open>return tfd.GaussianProcessRegressionModel(
    kernel=self.kernel,
    index_points=index_points,
    observation_index_points=self.observation_index_points,
    observations=self.observations,
)\<close>

  The constructor belongs to the library and can refuse its arguments.
\<close>

definition get_model :: "'o tfp \<Rightarrow> 'o gp_trainer \<Rightarrow> ndarray \<Rightarrow> py_error + gprm" where
  "get_model lib t points =
     (case gprm_init lib (regression_model t points) of
        Some e \<Rightarrow> Inl e
      | None \<Rightarrow> Inr (regression_model t points))"

text \<open>
  \<^verbatim>\<open>gprm = self.get_model(points)
return gprm.mean(), gprm.stddev()\<close>

  The method is given the program state and returns it with its result or its error, as
  every method of the trainer does here. It has no assignment to an attribute of the
  trainer, and the three library calls compute values from their arguments.
\<close>

definition predict ::
  "'o tfp \<Rightarrow> ndarray \<Rightarrow> 'o state \<Rightarrow> (py_error + real list \<times> real list) \<times> 'o state" where
  "predict lib points s =
     (case get_model lib (self s) points of
        Inl e \<Rightarrow> (Inl e, s)
      | Inr gprm \<Rightarrow>
          (case gprm_mean lib gprm of
             Inl e \<Rightarrow> (Inl e, s)
           | Inr m \<Rightarrow>
               (case gprm_stddev lib gprm of
                  Inl e \<Rightarrow> (Inl e, s)
                | Inr sd \<Rightarrow> (Inr (m, sd), s))))"

subsection \<open>One optimizer step\<close>

text \<open>
  \<^verbatim>\<open>with tf.GradientTape() as tape:
    loss = -self.gp_prior.log_prob(self.observations)
grads = tape.gradient(loss, self.trainable_variables)
self.optimizer.apply_gradients(zip(grads, self.trainable_variables))
return loss\<close>

  The trainable variables are the amplitude and the length scale. Each of the three
  library calls can raise; the variables and the optimizer change only when all three have
  returned.
\<close>

definition optimize_cycle :: "'o tfp \<Rightarrow> 'o gp_trainer \<Rightarrow> py_error + float64 \<times> 'o gp_trainer" where
  "optimize_cycle lib t =
     (case gp_log_prob lib (kernel_of t) (observation_index_points t) (observations t) of
        Inl e \<Rightarrow> Inl e
      | Inr lp \<Rightarrow>
          (case tape_gradient lib (kernel_of t) (observation_index_points t) (observations t) of
             Inl e \<Rightarrow> Inl e
           | Inr grads \<Rightarrow>
               (case apply_gradients lib (optimizer t) grads (amplitude t, length_scale t) of
                  Inl e \<Rightarrow> Inl e
                | Inr (vars, opt) \<Rightarrow>
                    Inr (fl_neg lp,
                         t\<lparr>amplitude := fst vars, length_scale := snd vars, optimizer := opt\<rparr>))))"

subsection \<open>Metrics by name\<close>

text \<open>What \<open>getattr(gp_metrics, name)\<close> can return.\<close>

datatype py_value =
    Float float64
  | Array "real list"
  | Pair "real list" "float64 list"
  | Object

definition REQUIRES_MEAN :: "string list" where
  "REQUIRES_MEAN = [''mae'', ''calibration_err'', ''residuals'', ''pis'']"

definition REQUIRES_STDDEV :: "string list" where
  "REQUIRES_STDDEV = [''sharpness'', ''variation'']"

text \<open>
  The names \<open>getattr\<close> finds on a \<open>GPMetrics\<close> object besides its seven properties: its
  instance attributes, methods and class attributes, and what every Python object has.
\<close>

definition other_attributes :: "string list" where
  "other_attributes =
     [''val_points'', ''gp_trainer'', ''gprm'', ''update_mean'', ''update_stddevs'',
      ''sharpness_plot'', ''calibration_plot'', ''REQUIRES_MEAN'', ''REQUIRES_STDDEV'',
      ''__class__'', ''__delattr__'', ''__dict__'', ''__dir__'', ''__doc__'', ''__eq__'',
      ''__format__'', ''__ge__'', ''__getattribute__'', ''__gt__'', ''__hash__'', ''__init__'',
      ''__init_subclass__'', ''__le__'', ''__lt__'', ''__module__'', ''__ne__'', ''__new__'',
      ''__reduce__'', ''__reduce_ex__'', ''__repr__'', ''__setattr__'', ''__sizeof__'',
      ''__str__'', ''__subclasshook__'', ''__weakref__'']"


text \<open>\<^verbatim>\<open>return -self.gprm.log_prob(self.val_obs).numpy()\<close>\<close>

definition nll :: "'o tfp \<Rightarrow> 'o gp_trainer \<Rightarrow> gp_metrics \<Rightarrow> py_error + float64" where
  "nll lib t gm =
     (case gprm_log_prob lib (regression_model t (val_points gm)) (val_obs gm) of
        Inl e \<Rightarrow> Inl e
      | Inr lp \<Rightarrow> Inr (fl_neg lp))"

definition lift_value :: "('a \<Rightarrow> py_value) \<Rightarrow> py_error + 'a \<Rightarrow> py_error + py_value" where
  "lift_value f r = (case r of Inl e \<Rightarrow> Inl e | Inr v \<Rightarrow> Inr (f v))"

definition getattr :: "'o tfp \<Rightarrow> 'o gp_trainer \<Rightarrow> gp_metrics \<Rightarrow> string \<Rightarrow> py_error + py_value" where
  "getattr lib t gm name =
     (if name = ''nll'' then lift_value Float (nll lib t gm)
      else if name = ''mae'' then lift_value Float (mae gm)
      else if name = ''sharpness'' then Inr (Float (sharpness (stddevs gm)))
      else if name = ''variation'' then Inr (Float (variation (stddevs gm)))
      else if name = ''calibration_err''
      then lift_value Float (calibration_err (normal_quantile lib) gm)
      else if name = ''residuals'' then lift_value Array (residuals gm)
      else if name = ''pis'' then lift_value (\<lambda>(p, ob). Pair p ob) (pis (normal_quantile lib) gm)
      else if name = ''val_obs'' then Inr (Array (val_obs gm))
      else if name = ''mean'' then Inr (Array (mean gm))
      else if name = ''stddevs'' then Inr (Array (stddevs gm))
      else if name \<in> set other_attributes then Inr Object
      else Inl (AttributeError name))"

text \<open>
  \<open>self.mean = self.gprm.mean().numpy()\<close> and \<open>self.stddevs = self.gprm.stddev().numpy()\<close>:
  the regression model of the \<open>GPMetrics\<close> object reads the trainer \<open>t\<close> as it is at the
  call.
\<close>

definition update_mean :: "'o tfp \<Rightarrow> 'o gp_trainer \<Rightarrow> gp_metrics \<Rightarrow> py_error + gp_metrics" where
  "update_mean lib t gm =
     (case gprm_mean lib (regression_model t (val_points gm)) of
        Inl e \<Rightarrow> Inl e
      | Inr m \<Rightarrow> Inr (gm\<lparr>mean := m\<rparr>))"

definition update_stddevs :: "'o tfp \<Rightarrow> 'o gp_trainer \<Rightarrow> gp_metrics \<Rightarrow> py_error + gp_metrics" where
  "update_stddevs lib t gm =
     (case gprm_stddev lib (regression_model t (val_points gm)) of
        Inl e \<Rightarrow> Inl e
      | Inr sd \<Rightarrow> Inr (gm\<lparr>stddevs := sd\<rparr>))"

text \<open>
  \<open>GPMetrics(val_points, val_obs, gp_trainer)\<close>:
  \<^verbatim>\<open>self.gprm = gp_trainer.get_model(val_points)
self.update_mean()
self.update_stddevs()\<close>
\<close>

definition GPMetrics_init ::
  "'o tfp \<Rightarrow> ndarray \<Rightarrow> real list \<Rightarrow> 'o gp_trainer \<Rightarrow> py_error + gp_metrics" where
  "GPMetrics_init lib points obs t =
     (case get_model lib t points of
        Inl e \<Rightarrow> Inl e
      | Inr gprm \<Rightarrow>
          (case update_mean lib t \<lparr>val_points = points, val_obs = obs, mean = [], stddevs = []\<rparr> of
             Inl e \<Rightarrow> Inl e
           | Inr gm \<Rightarrow> update_stddevs lib t gm))"

subsection \<open>The training loop\<close>

text \<open>
  \<^verbatim>\<open>try:
    metric_dict = {metric: getattr(gp_metrics, metric) for metric in metrics}
except AttributeError as e:
    raise ValueError(f"Invalid metric: {e}")\<close>

  The dictionary keeps the order of first insertion. Only an \<open>AttributeError\<close> is turned
  into the \<open>ValueError\<close>, whose message quotes the name.
\<close>

definition invalid_metric :: "string \<Rightarrow> py_error" where
  "invalid_metric name =
     ValueError (''Invalid metric: '' @ [CHR 0x27] @ ''GPMetrics'' @ [CHR 0x27]
                   @ '' object has no attribute '' @ [CHR 0x27] @ name @ [CHR 0x27])"

fun metric_dict_of ::
  "'o tfp \<Rightarrow> 'o gp_trainer \<Rightarrow> gp_metrics \<Rightarrow> string list \<Rightarrow> (string \<times> py_value) list
     \<Rightarrow> py_error + (string \<times> py_value) list" where
  "metric_dict_of lib t gm [] d = Inr d"
| "metric_dict_of lib t gm (metric # rest) d =
     (case getattr lib t gm metric of
        Inl (AttributeError n) \<Rightarrow> Inl (invalid_metric n)
      | Inl e \<Rightarrow> Inl e
      | Inr v \<Rightarrow> metric_dict_of lib t gm rest (AList.update metric v d))"

text \<open>
  \<^verbatim>\<open>for metric, value in metric_dict.items():
    self.metrics[metric].assign(value)\<close>

  A name that is no key of \<open>self.metrics\<close> is a \<open>KeyError\<close>; the assignments made before it
  stay. The trainer is returned in both cases.
\<close>

fun assign_metrics ::
  "(string \<times> py_value) list \<Rightarrow> 'o gp_trainer \<Rightarrow> py_error option \<times> 'o gp_trainer" where
  "assign_metrics [] t = (None, t)"
| "assign_metrics ((metric, v) # rest) t =
     (case metrics t metric of
        None \<Rightarrow> (Some (KeyError metric), t)
      | Some _ \<Rightarrow>
          (case v of
             Float x \<Rightarrow> assign_metrics rest (t\<lparr>metrics := (metrics t)(metric \<mapsto> x)\<rparr>)
           | _ \<Rightarrow> (Some (ValueError ''Shapes are incompatible''), t)))"

text \<open>
  \<open>self.ckpt_manager.save(self.training_steps)\<close>: the tracked variables as they are now.
  The checkpoint holds the five variables of \<open>self.metrics\<close> themselves; they exist from
  construction on, and \<open>metric_variable\<close> reads one of them.
\<close>

definition metric_variable :: "'o gp_trainer \<Rightarrow> string \<Rightarrow> float64" where
  "metric_variable t name = (case metrics t name of Some v \<Rightarrow> v | None \<Rightarrow> NaN)"

definition snapshot :: "'o gp_trainer \<Rightarrow> checkpoint" where
  "snapshot t =
     \<lparr>ckpt_step = training_steps t, ckpt_amp = amplitude t, ckpt_ls = length_scale t,
      ckpt_loss = loss t,
      ckpt_val_nll = metric_variable t ''nll'', ckpt_val_mae = metric_variable t ''mae'',
      ckpt_val_sharpness = metric_variable t ''sharpness'',
      ckpt_val_coeff_var = metric_variable t ''variation'',
      ckpt_val_cal_err = metric_variable t ''calibration_err''\<rparr>"

definition ckpt_save :: "'o state \<Rightarrow> 'o state" where
  "ckpt_save st =
     (case ckpt_manager (self st) of
        None \<Rightarrow> st
      | Some d \<Rightarrow> st\<lparr>ckpt_files := (ckpt_files st)(d \<mapsto> snapshot (self st))\<rparr>)"

text \<open>The local variables of \<open>train_model\<close> with the program state; \<open>yielded\<close> collects the
  dictionaries the generator has produced.\<close>

record 'o loop_state =
  st :: "'o state"
  gp_metrics :: gp_metrics
  best_val_nll :: float64
  steps_since_improvement :: int
  yielded :: "(string \<times> py_value) list list"

datatype 'a outcome = Continue 'a | Broke 'a | Raised py_error 'a

text \<open>
  The early-stopping part of an epoch:
  \<^verbatim>\<open>if patience or self.ckpt_manager:
    if self.metrics["nll"] < best_val_nll:
        best_val_nll = self.metrics["nll"].numpy()
        steps_since_improvement = 1
        if self.ckpt_manager:
            self.ckpt_manager.save(self.training_steps)
    else:
        steps_since_improvement += 1
        if patience and steps_since_improvement >= patience:
            break\<close>
\<close>

definition early_stopping :: "int option \<Rightarrow> 'o loop_state \<Rightarrow> 'o loop_state outcome" where
  "early_stopping patience s =
     (if truthy_int patience \<or> ckpt_manager (self (st s)) \<noteq> None
      then (case metrics (self (st s)) ''nll'' of
              None \<Rightarrow> Raised (KeyError ''nll'') s
            | Some v \<Rightarrow>
                if fl_lt v (best_val_nll s)
                then Continue (s\<lparr>best_val_nll := v, steps_since_improvement := 1,
                                 st := ckpt_save (st s)\<rparr>)
                else (let s' = s\<lparr>steps_since_improvement := steps_since_improvement s + 1\<rparr>
                      in if truthy_int patience \<and> the patience \<le> steps_since_improvement s'
                         then Broke s' else Continue s'))
      else Continue s)"

text \<open>
  The first two statements of the loop body:
  \<^verbatim>\<open>self.loss.assign(self.optimize_cycle())
self.training_steps.assign_add(1)\<close>

  \<open>optimizer_step\<close> is the trainer after them. When \<open>optimize_cycle\<close> raises, nothing
  has been assigned and the trainer is as it was; the loop body then raises (see \<open>epoch\<close>).
\<close>

definition optimizer_step :: "'o tfp \<Rightarrow> 'o gp_trainer \<Rightarrow> 'o gp_trainer" where
  "optimizer_step lib t =
     (case optimize_cycle lib t of
        Inl e \<Rightarrow> t
      | Inr (l, t1) \<Rightarrow> t1\<lparr>loss := l, training_steps := training_steps t1 + 1\<rparr>)"

text \<open>
  One pass through the body of \<open>for i in range(epochs)\<close>, for the list object
  \<open>metrics_ref\<close>:
  \<^verbatim>\<open>if gp_metrics.REQUIRES_MEAN.intersection(metrics):
    gp_metrics.update_mean()
if gp_metrics.REQUIRES_STDDEV.intersection(metrics):
    gp_metrics.update_stddevs()
...
metric_dict["loss"] = self.loss.numpy()
yield metric_dict\<close>
\<close>

definition epoch :: "'o tfp \<Rightarrow> int option \<Rightarrow> nat \<Rightarrow> 'o loop_state \<Rightarrow> 'o loop_state outcome" where
  "epoch lib patience metrics_ref s =
     (case optimize_cycle lib (self (st s)) of
        Inl e \<Rightarrow> Raised e s
      | Inr c \<Rightarrow>
          (let ms = lists (st s) metrics_ref;
               t3 = optimizer_step lib (self (st s))
           in case (if set REQUIRES_MEAN \<inter> set ms \<noteq> {}
                    then update_mean lib t3 (gp_metrics s) else Inr (gp_metrics s)) of
                Inl e \<Rightarrow> Raised e (s\<lparr>st := (st s)\<lparr>self := t3\<rparr>\<rparr>)
              | Inr gm1 \<Rightarrow>
                  (case (if set REQUIRES_STDDEV \<inter> set ms \<noteq> {}
                         then update_stddevs lib t3 gm1 else Inr gm1) of
                     Inl e \<Rightarrow> Raised e (s\<lparr>st := (st s)\<lparr>self := t3\<rparr>, gp_metrics := gm1\<rparr>)
                   | Inr gm2 \<Rightarrow>
                       (case metric_dict_of lib t3 gm2 ms [] of
                          Inl e \<Rightarrow> Raised e (s\<lparr>st := (st s)\<lparr>self := t3\<rparr>, gp_metrics := gm2\<rparr>)
                        | Inr metric_dict \<Rightarrow>
                            (case assign_metrics metric_dict t3 of
                               (Some e, t4) \<Rightarrow>
                                 Raised e (s\<lparr>st := (st s)\<lparr>self := t4\<rparr>, gp_metrics := gm2\<rparr>)
                             | (None, t4) \<Rightarrow>
                                 early_stopping patience
                                   (s\<lparr>st := (st s)\<lparr>self := t4\<rparr>, gp_metrics := gm2,
                                      yielded := yielded s
                                        @ [AList.update ''loss'' (Float (loss t4)) metric_dict]\<rparr>))))))"

fun train_loop ::
  "'o tfp \<Rightarrow> int option \<Rightarrow> nat \<Rightarrow> nat \<Rightarrow> 'o loop_state \<Rightarrow> 'o loop_state outcome" where
  "train_loop lib patience metrics_ref 0 s = Continue s"
| "train_loop lib patience metrics_ref (Suc n) s =
     (case epoch lib patience metrics_ref s of
        Continue s' \<Rightarrow> train_loop lib patience metrics_ref n s'
      | Broke s' \<Rightarrow> Broke s'
      | Raised e s' \<Rightarrow> Raised e s')"

text \<open>
  The statements of \<open>train_model\<close> before its loop:
  \<^verbatim>\<open>best_val_nll = self.metrics["nll"].numpy()
if np.isnan(best_val_nll):
    best_val_nll = np.inf
if (self.ckpt_manager or patience) and "nll" not in metrics:
    metrics.append("nll")
steps_since_improvement = 1
gp_metrics = GPMetrics(val_points, val_obs, self)\<close>

  An error comes with the program state at the raise: \<open>nll\<close> has been appended by the time
  \<open>GPMetrics\<close> is constructed.
\<close>

definition train_setup ::
  "'o tfp \<Rightarrow> ndarray \<Rightarrow> real list \<Rightarrow> int option \<Rightarrow> nat \<Rightarrow> 'o state
     \<Rightarrow> py_error \<times> 'o state + 'o loop_state" where
  "train_setup lib points obs patience metrics_ref s0 =
     (case metrics (self s0) ''nll'' of
        None \<Rightarrow> Inl (KeyError ''nll'', s0)
      | Some v \<Rightarrow>
          (let best = (if np_isnan v then PInf else v);
               ms = lists s0 metrics_ref;
               s1 = (if (ckpt_manager (self s0) \<noteq> None \<or> truthy_int patience)
                        \<and> ''nll'' \<notin> set ms
                     then s0\<lparr>lists := (lists s0)(metrics_ref := ms @ [''nll''])\<rparr> else s0)
           in case GPMetrics_init lib points obs (self s1) of
                Inl e \<Rightarrow> Inl (e, s1)
              | Inr gm \<Rightarrow>
                  Inr \<lparr>st = s1, gp_metrics = gm, best_val_nll = best,
                       steps_since_improvement = 1, yielded = []\<rparr>))"

definition save_model :: "string option \<Rightarrow> 'o state \<Rightarrow> 'o state" where
  "save_model save_dir s =
     (if truthy_str save_dir
      then s\<lparr>saved_models := (saved_models s)(the save_dir \<mapsto> self s)\<rparr> else s)"

text \<open>
  \<open>train_model\<close>, with its generator run until it is exhausted or raises. The result is
  the exception (if one was raised), the dictionaries yielded, and the program state. After
  the loop (\<open>save_model\<close>): \<^verbatim>\<open>if save_dir: tf.saved_model.save(self, save_dir)\<close>. \<open>range(epochs)\<close> is
  empty for a negative \<open>epochs\<close>.
\<close>

definition train_model ::
  "'o tfp \<Rightarrow> ndarray \<Rightarrow> real list \<Rightarrow> int \<Rightarrow> int option \<Rightarrow> string option \<Rightarrow> nat \<Rightarrow> 'o state
     \<Rightarrow> py_error option \<times> (string \<times> py_value) list list \<times> 'o state" where
  "train_model lib points obs epochs patience save_dir metrics_ref s0 =
     (case train_setup lib points obs patience metrics_ref s0 of
        Inl (e, s1) \<Rightarrow> (Some e, [], s1)
      | Inr s \<Rightarrow>
          (case train_loop lib patience metrics_ref (nat epochs) s of
             Raised e s' \<Rightarrow> (Some e, yielded s', st s')
           | Continue s' \<Rightarrow> (None, yielded s', save_model save_dir (st s'))
           | Broke s' \<Rightarrow> (None, yielded s', save_model save_dir (st s'))))"

text \<open>
  The default of the parameter \<open>metrics\<close> is one list object, made when the function is
  defined and shared by every call that omits the argument. The other defaults are
  \<open>epochs=1000\<close>, \<open>patience=None\<close> and \<open>save_dir=None\<close>.
\<close>

definition default_metrics :: nat where
  "default_metrics = 0"

section \<open>The state at the last checkpoint\<close>

text \<open>
  The trainer as it was when the loop last saved a checkpoint: the loop saves at the end of
  an epoch whose validation NLL is below the best seen before it, when a checkpoint manager
  exists. \<open>acc\<close> is the answer for the epochs already passed.
\<close>

fun last_checkpointed ::
  "'o tfp \<Rightarrow> int option \<Rightarrow> nat \<Rightarrow> nat \<Rightarrow> 'o loop_state \<Rightarrow> 'o gp_trainer option
     \<Rightarrow> 'o gp_trainer option" where
  "last_checkpointed lib patience metrics_ref 0 s acc = acc"
| "last_checkpointed lib patience metrics_ref (Suc n) s acc =
     (case epoch lib patience metrics_ref s of
        Continue s' \<Rightarrow>
          last_checkpointed lib patience metrics_ref n s'
            (if ckpt_manager (self (st s')) \<noteq> None
                \<and> fl_lt (metric_variable (self (st s')) ''nll'') (best_val_nll s)
             then Some (self (st s')) else acc)
      | Broke s' \<Rightarrow> acc
      | Raised e s' \<Rightarrow> acc)"

text \<open>The same for a whole call of \<open>train_model\<close>: no checkpoint when its set-up raises.\<close>

definition last_checkpoint ::
  "'o tfp \<Rightarrow> ndarray \<Rightarrow> real list \<Rightarrow> int \<Rightarrow> int option \<Rightarrow> nat \<Rightarrow> 'o state
     \<Rightarrow> 'o gp_trainer option" where
  "last_checkpoint lib points obs epochs patience metrics_ref s0 =
     (case train_setup lib points obs patience metrics_ref s0 of
        Inl e \<Rightarrow> None
      | Inr s \<Rightarrow> last_checkpointed lib patience metrics_ref (nat epochs) s None)"

section \<open>Auxiliary notions\<close>


text \<open>The loop state an outcome carries.\<close>

fun outcome_state :: "'a outcome \<Rightarrow> 'a" where
  "outcome_state (Continue s) = s"
| "outcome_state (Broke s) = s"
| "outcome_state (Raised e s) = s"

section \<open>Example inputs\<close>

text \<open>
  A small instance of the library, for evaluating the model on concrete inputs: no call
  raises, the optimizer state counts the updates, every update adds 1 to the amplitude, and
  the regression model's log probability is always \<open>-1\<close>, so that the validation NLL is 1
  at every step.
\<close>

definition example_lib :: "nat tfp" where
  "example_lib =
     \<lparr>adam = 0,
      gp_log_prob = (\<lambda>k ips obs. Inr (Fin 0)),
      tape_gradient = (\<lambda>k ips obs. Inr (Fin 0, Fin 0)),
      apply_gradients = (\<lambda>opt grads vars. Inr ((fl_add (fst vars) (Fin 1), snd vars), Suc opt)),
      gprm_init = (\<lambda>g. None),
      gprm_mean = (\<lambda>g. Inr [0]),
      gprm_stddev = (\<lambda>g. Inr [1]),
      gprm_log_prob = (\<lambda>g obs. Inr (Fin (- 1))),
      normal_quantile = (\<lambda>p. if p \<le> 0 then NInf else if 1 \<le> p then PInf else Fin 0)\<rparr>"

text \<open>
  The same library with a regression model that, as the one of TensorFlow Probability,
  refuses observations that are not as many as the observation index points, and index
  points whose feature dimensions are not those of the observation index points.
\<close>

definition checked_lib :: "nat tfp" where
  "checked_lib =
     example_lib\<lparr>gprm_init :=
       (\<lambda>g. if hd (shape (gprm_observation_index_points g)) \<noteq> hd (shape (gprm_observations g))
               \<or> tl (shape (gprm_index_points g)) \<noteq> tl (shape (gprm_observation_index_points g))
            then Some (InvalidArgumentError ''Incompatible shapes'') else None)\<rparr>"

definition example_points :: ndarray where
  "example_points = \<lparr>shape = [1, 1], elems = [0]\<rparr>"

text \<open>A freshly constructed trainer: five index points in one dimension.\<close>

definition example_trainer :: "string option \<Rightarrow> nat gp_trainer" where
  "example_trainer dir =
     \<lparr>observation_index_points = \<lparr>shape = [5, 1], elems = [0, 1, 2, 3, 4]\<rparr>,
      observations = \<lparr>shape = [5], elems = [0, 1, 2, 3, 4]\<rparr>,
      amplitude = Fin 1, length_scale = Fin 1, feature_ndims = 1,
      optimizer = 0, training_steps = 0, loss = NaN,
      metrics = initial_metrics, ckpt_manager = dir\<rparr>"

text \<open>A program state with that trainer; list object 0 is the default of \<open>metrics\<close>, list
  object 1 holds the name \<open>bogus\<close>.\<close>

definition example_state :: "string option \<Rightarrow> nat state" where
  "example_state dir =
     \<lparr>self = example_trainer dir, lists = (\<lambda>r. if r = 1 then [''bogus''] else []),
      ckpt_files = Map.empty, saved_models = Map.empty\<rparr>"

text \<open>The trainer that \<open>__init__\<close> builds from five index points and four observations.\<close>

definition mismatched_trainer :: "nat gp_trainer" where
  "mismatched_trainer =
     (example_trainer None)\<lparr>observations := \<lparr>shape = [4], elems = [0, 1, 2, 3]\<rparr>\<rparr>"

section \<open>Properties of sharpness and variation\<close>

lemma np_sum_Fin: "np_sum (map (\<lambda>s. Fin (f s)) xs) = Fin (sum_list (map f xs))"
  by (induction xs) (simp_all add: np_sum_def)

lemma np_mean_Fin:
  "xs \<noteq> [] \<Longrightarrow> np_mean (map (\<lambda>s. Fin (f s)) xs) = Fin (sum_list (map f xs) / real (length xs))"
  by (simp add: np_mean_def np_sum_Fin)

lemma sharpness_eq: "xs \<noteq> [] \<Longrightarrow> sharpness xs = Fin (root_mean_square xs)"
proof -
  assume ne: "xs \<noteq> []"
  have nn: "0 \<le> sum_list (map (\<lambda>x. x * x) xs)" by (rule sum_list_nonneg) auto
  have "sharpness xs = np_sqrt (np_mean (map (\<lambda>s. Fin (s * s)) xs))"
    by (simp add: sharpness_def np_square_def)
  also have "\<dots> = np_sqrt (Fin (sum_list (map (\<lambda>x. x * x) xs) / real (length xs)))"
    using ne by (simp add: np_mean_Fin)
  also have "\<dots> = Fin (root_mean_square xs)"
    using nn by (simp add: root_mean_square_def power2_eq_square not_less divide_nonneg_nonneg)
  finally show ?thesis .
qed

lemma sum_sq_zero_iff: "sum_list (map (\<lambda>x::real. x\<^sup>2) xs) = 0 \<longleftrightarrow> (\<forall>x\<in>set xs. x = 0)"
proof (induction xs)
  case Nil then show ?case by simp
next
  case (Cons a xs)
  have nn: "0 \<le> sum_list (map (\<lambda>x::real. x\<^sup>2) xs)" by (rule sum_list_nonneg) auto
  have "a\<^sup>2 + sum_list (map (\<lambda>x. x\<^sup>2) xs) = 0 \<longleftrightarrow> a\<^sup>2 = 0 \<and> sum_list (map (\<lambda>x. x\<^sup>2) xs) = 0"
    using nn by (simp add: add_nonneg_eq_0_iff)
  with Cons show ?case by simp
qed

lemma rms_zero_iff: "xs \<noteq> [] \<Longrightarrow> root_mean_square xs = 0 \<longleftrightarrow> (\<forall>x\<in>set xs. x = 0)"
  by (simp add: root_mean_square_def sum_sq_zero_iff)

lemma variation_eq:
  assumes "2 \<le> length xs" and "mean_of xs \<noteq> 0"
  shows "variation xs =
     Fin (sqrt (sum_list (map (\<lambda>x. (x - mean_of xs)\<^sup>2) xs)) / (mean_of xs * (real (length xs) - 1)))"
proof -
  from assms have ne: "xs \<noteq> []" by auto
  have m: "np_mean (map Fin xs) = Fin (mean_of xs)"
    using np_mean_Fin [OF ne, of "\<lambda>x. x"] by (simp add: mean_of_def)
  have nn: "0 \<le> sum_list (map (\<lambda>x. (x - mean_of xs)\<^sup>2) xs)" by (rule sum_list_nonneg) auto
  have s: "np_sum (map (\<lambda>s. np_square (fl_sub (Fin s) (Fin (mean_of xs)))) xs)
      = Fin (sum_list (map (\<lambda>x. (x - mean_of xs)\<^sup>2) xs))"
    using np_sum_Fin [of "\<lambda>x. (x - mean_of xs)\<^sup>2" xs]
    by (simp add: np_square_def fl_sub_def power2_eq_square)
  have d: "mean_of xs * (real (length xs) - 1) \<noteq> 0" using assms by auto
  have r: "real_of_int (int (length xs) - 1) = real (length xs) - 1" by simp
  show ?thesis
    unfolding variation_def Let_def m s r using nn d by (simp add: not_less)
qed

text \<open>
  Claim C4, as amended. For at least two predicted standard deviations whose mean is not
  zero, \<open>variation\<close> is the square root of the sum of the squared deviations from the mean
  (the sum is not divided by the number of points), divided by the mean times \<open>N - 1\<close>: that
  is \<open>sqrt N\<close> times the population standard deviation over the mean times \<open>N - 1\<close>.
\<close>

theorem variation_formula:
  assumes "2 \<le> length sds" and "mean_of sds \<noteq> 0"
  shows "variation sds =
           Fin (sqrt (sum_list (map (\<lambda>s. (s - mean_of sds)\<^sup>2) sds))
                  / (mean_of sds * (real (length sds) - 1)))
       \<and> variation sds =
           Fin (sqrt (real (length sds)) * population_stddev sds
                  / (mean_of sds * (real (length sds) - 1)))"
proof -
  have n: "0 < real (length sds)" using assms by (cases sds) auto
  have "sqrt (real (length sds)) * population_stddev sds
          = sqrt (sum_list (map (\<lambda>s. (s - mean_of sds)\<^sup>2) sds))"
    unfolding population_stddev_def real_sqrt_mult [symmetric] using n by simp
  with variation_eq [OF assms] show ?thesis by simp
qed

lemma mean_1133: "mean_of [1, 1, 3, 3] = 2"
  by (simp add: mean_of_def)

lemma sqrt4: "sqrt 4 = 2"
  using real_sqrt_abs [of 2] by simp

theorem variation_formula_witness:
  "variation [1, 1, 3, 3] = Fin (1 / 3)"
  using variation_formula [of "[1, 1, 3, 3]"] by (simp add: mean_1133 sqrt4)

text \<open>
  Claim C4 as stated fails: for the standard deviations 1, 1, 3, 3 the code returns 1/3,
  while the population standard deviation (1) over the mean (2) times \<open>N - 1\<close> (3) is 1/6.
\<close>

theorem variation_population_counterexample:
  "variation [1, 1, 3, 3]
     \<noteq> Fin (population_stddev [1, 1, 3, 3] / (mean_of [1, 1, 3, 3] * (real (length [1, 1, 3, 3 :: real]) - 1)))"
proof -
  have v: "variation [1, 1, 3, 3] = Fin (1 / 3)"
    using variation_eq [of "[1, 1, 3, 3]"] by (simp add: mean_1133 sqrt4)
  show ?thesis unfolding v by (simp add: population_stddev_def mean_1133)
qed

lemma mean_pos:
  assumes "\<forall>s\<in>set xs. 0 \<le> (s::real)" and "\<exists>s\<in>set xs. 0 < s"
  shows "0 < mean_of xs"
proof -
  from assms(2) obtain s where s: "s \<in> set xs" "0 < s" by blast
  have "s \<le> sum_list xs" using s(1) assms(1)
  proof (induction xs)
    case Nil then show ?case by simp
  next
    case (Cons a xs)
    have nn: "0 \<le> sum_list xs" using Cons.prems(2) by (intro sum_list_nonneg) auto
    show ?case
    proof (cases "s = a")
      case True then show ?thesis using nn by simp
    next
      case False
      then have "s \<le> sum_list xs" using Cons by auto
      moreover have "0 \<le> a" using Cons.prems(2) by simp
      ultimately show ?thesis by simp
    qed
  qed
  with s(2) have "0 < sum_list xs" by linarith
  moreover have "0 < real (length xs)" using s(1) by (cases xs) auto
  ultimately show ?thesis by (simp add: mean_of_def)
qed

text \<open>
  Claim C5, as amended. For every non-empty vector of predicted standard deviations,
  \<open>sharpness\<close> is their root mean square, it is at least 0, and it is 0 exactly when all of
  them are 0. \<open>variation\<close> is at least 0 when there are two or more standard deviations,
  none negative and one positive; when all of them are 0 it is \<open>nan\<close> (0 over 0).
\<close>

theorem sharpness_variation_sign:
  assumes "sds \<noteq> []"
  shows "sharpness sds = Fin (root_mean_square sds)
       \<and> fl_le (Fin 0) (sharpness sds)
       \<and> (sharpness sds = Fin 0 \<longleftrightarrow> (\<forall>s\<in>set sds. s = 0))
       \<and> (2 \<le> length sds \<and> (\<forall>s\<in>set sds. 0 \<le> s) \<and> (\<exists>s\<in>set sds. 0 < s)
            \<longrightarrow> fl_le (Fin 0) (variation sds))
       \<and> ((\<forall>s\<in>set sds. s = 0) \<longrightarrow> variation sds = NaN)"
proof -
  have sh: "sharpness sds = Fin (root_mean_square sds)"
    using assms by (rule sharpness_eq)
  have nn: "0 \<le> root_mean_square sds"
    unfolding root_mean_square_def by (intro real_sqrt_ge_zero divide_nonneg_nonneg sum_list_nonneg) auto
  have v: "fl_le (Fin 0) (variation sds)"
    if "2 \<le> length sds" "\<forall>s\<in>set sds. 0 \<le> s" "\<exists>s\<in>set sds. 0 < s"
  proof -
    have mp: "0 < mean_of sds" using that(2,3) by (rule mean_pos)
    have "0 \<le> sqrt (sum_list (map (\<lambda>s. (s - mean_of sds)\<^sup>2) sds))"
      by (intro real_sqrt_ge_zero sum_list_nonneg) auto
    moreover have "0 < mean_of sds * (real (length sds) - 1)" using mp that(1) by simp
    ultimately show ?thesis using variation_eq [of sds] that(1) mp by simp
  qed
  have z: "variation sds = NaN" if "\<forall>s\<in>set sds. s = 0"
  proof -
    have s0: "sum_list sds = 0" using that by (induction sds) auto
    have m: "np_mean (map Fin sds) = Fin 0"
      using np_mean_Fin [OF assms, of "\<lambda>x. x"] s0 by simp
    have "np_sum (map (\<lambda>s. np_square (fl_sub (Fin s) (Fin 0))) sds)
            = Fin (sum_list (map (\<lambda>x. x\<^sup>2) sds))"
      using np_sum_Fin [of "\<lambda>x. x\<^sup>2" sds]
      by (simp add: np_square_def fl_sub_def power2_eq_square)
    also have "\<dots> = Fin 0" using that sum_sq_zero_iff [of sds] by simp
    finally have "np_sum (map (\<lambda>s. np_square (fl_sub (Fin s) (Fin 0))) sds) = Fin 0" .
    then show ?thesis unfolding variation_def Let_def m by simp
  qed
  show ?thesis using sh nn v z rms_zero_iff [OF assms] by simp
qed

lemma sqrt25: "sqrt 25 = 5"
  using real_sqrt_abs [of 5] by simp

theorem sharpness_variation_sign_witness:
  "sharpness [1, 7] = Fin 5 \<and> fl_le (Fin 0) (sharpness [1, 7]) \<and> sharpness [1, 7] \<noteq> Fin 0
     \<and> fl_le (Fin 0) (variation [1, 7]) \<and> variation [0, 0] = NaN"
  using sharpness_variation_sign [of "[1, 7]"] sharpness_variation_sign [of "[0, 0]"]
  by (simp add: root_mean_square_def sqrt25)

text \<open>
  Claim C5 as stated fails: for the standard deviations 0, 0 the variation is \<open>nan\<close>, and
  \<open>nan\<close> is not at least 0.
\<close>

theorem variation_all_zero_counterexample:
  "\<not> fl_le (Fin 0) (variation [0, 0])"
  by (simp add: variation_def np_mean_def np_sum_def np_square_def fl_sub_def)

section \<open>Index-point conversion and percentile intervals\<close>

lemma prod_list_replicate_one: "prod_list (replicate k (1::nat)) = 1"
  by (induction k) simp_all

text \<open>
  Claim C6. For a well-formed two-dimensional array of shape \<open>(N, D)\<close> with \<open>D \<ge> 1\<close>,
  \<open>convert_index_points\<close> returns a tensor whose shape is \<open>(N, D)\<close> followed by exactly
  \<open>D - 1\<close> dimensions of size 1 and whose elements are those of the array, unchanged. The
  function takes and returns values only: it has no state to change.
\<close>

theorem convert_index_points_shape:
  assumes "shape a = [n, d]" and "1 \<le> d" and "wf_array a"
  shows "convert_index_points a = Inr \<lparr>shape = [n, d] @ replicate (d - 1) 1, elems = elems a\<rparr>"
proof -
  have k: "nat (int d - 1) = d - 1" by simp
  have "length (elems a) = prod_list ([n, d] @ replicate (d - 1) 1)"
    using assms(1,3) by (simp add: wf_array_def prod_list_replicate_one)
  then show ?thesis
    unfolding convert_index_points_def tf_constant_def using assms(1) k by simp
qed

theorem convert_index_points_shape_witness:
  "convert_index_points \<lparr>shape = [2, 3], elems = [1, 2, 3, 4, 5, 6]\<rparr>
     = Inr \<lparr>shape = [2, 3, 1, 1], elems = [1, 2, 3, 4, 5, 6]\<rparr>"
  using convert_index_points_shape [of "\<lparr>shape = [2, 3], elems = [1, 2, 3, 4, 5, 6]\<rparr>" 2 3]
  by (simp add: wf_array_def numeral_2_eq_2)

lemma np_linspace_100:
  "length (np_linspace 0 1 100) = 100"
  "i < 100 \<Longrightarrow> np_linspace 0 1 100 ! i = real i / 99"
  by (simp_all add: np_linspace_def)

lemma norm_resids_eq:
  assumes "length (mean gm) = n" "length (val_obs gm) = n" "length (stddevs gm) = n"
  shows "residuals gm = Inr (map (\<lambda>j. mean gm ! j - val_obs gm ! j) [0..<n])"
    and "np_elementwise (\<lambda>r s. fl_div (Fin r) (Fin s))
           (map (\<lambda>j. mean gm ! j - val_obs gm ! j) [0..<n]) (stddevs gm)
         = Inr (map (norm_resid gm) [0..<n])"
  using assms
  by (auto simp: residuals_def np_elementwise_def norm_resid_def intro!: nth_equalityI)

lemma count_upt: "length (filter Q [0..<n]) = card {j. j < n \<and> Q j}"
  using length_filter_conv_card [of Q "[0..<n]"] by (simp cong: conj_cong)

text \<open>
  Claim C7. For non-empty mean, observation and standard-deviation vectors of one length
  \<open>n\<close>, \<open>pis\<close> returns two sequences of length 100: the nominal levels \<open>i / 99\<close> for
  \<open>i = 0, ..., 99\<close> (evenly spaced from 0 to 1), and for each level the number of
  normalised residuals that are at most the normal quantile of that level, over \<open>n\<close>.
\<close>

theorem pis_levels_and_fractions:
  assumes "length (mean gm) = n" and "length (val_obs gm) = n" and "length (stddevs gm) = n"
    and "0 < n"
  shows "\<exists>predicted_pi observed_pi.
           pis quantile gm = Inr (predicted_pi, observed_pi)
         \<and> length predicted_pi = 100 \<and> length observed_pi = 100
         \<and> predicted_pi ! 0 = 0 \<and> predicted_pi ! 99 = 1
         \<and> (\<forall>i<100. predicted_pi ! i = real i / 99)
         \<and> (\<forall>i<100. observed_pi ! i =
               Fin (real (card {j. j < n \<and> fl_le (norm_resid gm j) (quantile (predicted_pi ! i))})
                      / real n))"
proof -
  let ?nr = "map (norm_resid gm) [0..<n]"
  let ?p = "np_linspace 0 1 100"
  let ?o = "map (\<lambda>c. fl_div (Fin (real c)) (Fin (real (length ?nr))))
              (map (\<lambda>bound. length (filter (\<lambda>r. fl_le r bound) ?nr)) (map quantile ?p))"
  have p: "pis quantile gm = Inr (?p, ?o)"
    by (simp only: pis_def norm_resids_eq [OF assms(1-3)] sum.case Let_def)
  have o: "?o ! i = Fin (real (card {j. j < n \<and> fl_le (norm_resid gm j) (quantile (?p ! i))}) / real n)"
    if "i < 100" for i
    using that assms(4) by (simp add: np_linspace_100(1) count_upt o_def)
  show ?thesis
    using p o by (simp add: np_linspace_100)
qed

theorem pis_levels_and_fractions_witness:
  "\<exists>predicted_pi observed_pi.
     pis (\<lambda>p. if p \<le> 0 then NInf else if 1 \<le> p then PInf else Fin 0)
       \<lparr>val_points = \<lparr>shape = [1, 1], elems = [0]\<rparr>, val_obs = [1], mean = [2], stddevs = [1]\<rparr>
       = Inr (predicted_pi, observed_pi)
     \<and> length predicted_pi = 100 \<and> length observed_pi = 100
     \<and> predicted_pi ! 0 = 0 \<and> predicted_pi ! 99 = 1"
  using pis_levels_and_fractions [of
    "\<lparr>val_points = \<lparr>shape = [1, 1], elems = [0]\<rparr>, val_obs = [1], mean = [2], stddevs = [1]\<rparr>"
    1 "\<lambda>p. if p \<le> 0 then NInf else if 1 \<le> p then PInf else Fin 0"]
  by auto

section \<open>Properties of the trainer\<close>

subsection \<open>Attribute lookup\<close>

lemma lift_value_error: "lift_value f r = Inl e \<Longrightarrow> r = Inl e"
  by (auto simp: lift_value_def split: sum.splits)


lemma initial_metrics_dom:
  "dom initial_metrics = {''nll'', ''mae'', ''sharpness'', ''variation'', ''calibration_err''}"
  by (auto simp: initial_metrics_def split: if_splits)



subsection \<open>Building the metric dictionary\<close>









subsection \<open>Frame properties of the loop body\<close>

lemma assign_metrics_frame:
  "snd (assign_metrics d t) = t\<lparr>metrics := metrics (snd (assign_metrics d t))\<rparr>"
proof (induction d arbitrary: t)
  case Nil
  show ?case by simp
next
  case (Cons kv d)
  obtain k v where kv: "kv = (k, v)" by (cases kv)
  show ?case
  proof (cases "metrics t k")
    case None
    then show ?thesis by (simp add: kv)
  next
    case (Some y)
    show ?thesis
    proof (cases v)
      case (Float x)
      let ?t = "t\<lparr>metrics := (metrics t)(k \<mapsto> x)\<rparr>"
      have e: "assign_metrics (kv # d) t = assign_metrics d ?t"
        by (simp add: kv Some Float)
      have "snd (assign_metrics d ?t) = ?t\<lparr>metrics := metrics (snd (assign_metrics d ?t))\<rparr>"
        by (rule Cons.IH)
      also have "\<dots> = t\<lparr>metrics := metrics (snd (assign_metrics d ?t))\<rparr>" by simp
      finally show ?thesis unfolding e .
    qed (simp_all add: kv Some)
  qed
qed

lemma assign_metrics_dom: "dom (metrics (snd (assign_metrics d t))) = dom (metrics t)"
proof (induction d arbitrary: t)
  case Nil
  show ?case by simp
next
  case (Cons kv d)
  obtain k v where kv: "kv = (k, v)" by (cases kv)
  show ?case
  proof (cases "metrics t k")
    case None
    then show ?thesis by (simp add: kv)
  next
    case (Some y)
    show ?thesis
    proof (cases v)
      case (Float x)
      define m where "m = (metrics t)(k \<mapsto> x)"
      have dm: "dom m = dom (metrics t)"
        unfolding m_def using Some by (simp only: dom_fun_upd option.simps insert_absorb domI if_False)
      have "dom (metrics (snd (assign_metrics d (t\<lparr>metrics := m\<rparr>)))) = dom m"
        using Cons.IH [of "t\<lparr>metrics := m\<rparr>"] by simp
      then have "dom (metrics (snd (assign_metrics d (t\<lparr>metrics := m\<rparr>)))) = dom (metrics t)"
        using dm by simp
      then have "dom (metrics (snd (assign_metrics d (t\<lparr>metrics := (metrics t)(k \<mapsto> x)\<rparr>))))
                   = dom (metrics t)" unfolding m_def .
      then show ?thesis by (simp only: kv assign_metrics.simps Some Float option.simps py_value.simps)
    qed (simp_all add: kv Some)
  qed
qed



lemma optimize_cycle_fields:
  assumes "optimize_cycle lib t = Inr (l, t1)"
  shows "ckpt_manager t1 = ckpt_manager t" "metrics t1 = metrics t"
    "training_steps t1 = training_steps t" "loss t1 = loss t"
    "observation_index_points t1 = observation_index_points t"
    "observations t1 = observations t" "feature_ndims t1 = feature_ndims t"
  using assms by (auto simp: optimize_cycle_def split: sum.splits prod.splits)

lemma optimizer_step_fields:
  "ckpt_manager (optimizer_step lib t) = ckpt_manager t"
  "metrics (optimizer_step lib t) = metrics t"
  "observation_index_points (optimizer_step lib t) = observation_index_points t"
  "observations (optimizer_step lib t) = observations t"
  "feature_ndims (optimizer_step lib t) = feature_ndims t"
  by (auto simp: optimizer_step_def optimize_cycle_fields split: sum.splits)

lemma optimizer_step_Inl: "optimize_cycle lib t = Inl e \<Longrightarrow> optimizer_step lib t = t"
  by (simp add: optimizer_step_def)

lemma optimizer_step_Inr:
  assumes "optimize_cycle lib t = Inr (l, t1)"
  shows "training_steps (optimizer_step lib t) = training_steps t + 1"
    "loss (optimizer_step lib t) = l"
    "amplitude (optimizer_step lib t) = amplitude t1"
    "length_scale (optimizer_step lib t) = length_scale t1"
    "optimizer (optimizer_step lib t) = optimizer t1"
  using assms optimize_cycle_fields(3) [OF assms] by (simp_all add: optimizer_step_def)

lemma early_stopping_frame:
  "lists (st (outcome_state (early_stopping p s))) = lists (st s)"
  "self (st (outcome_state (early_stopping p s))) = self (st s)"
  "saved_models (st (outcome_state (early_stopping p s))) = saved_models (st s)"
  "gp_metrics (outcome_state (early_stopping p s)) = gp_metrics s"
  "yielded (outcome_state (early_stopping p s)) = yielded s"
  by (simp_all add: early_stopping_def ckpt_save_def Let_def split: option.splits)

lemma update_mean_frame:
  "update_mean lib t gm = Inr gm' \<Longrightarrow> val_points gm' = val_points gm \<and> val_obs gm' = val_obs gm"
  by (auto simp: update_mean_def split: sum.splits)

lemma update_stddevs_frame:
  "update_stddevs lib t gm = Inr gm' \<Longrightarrow> val_points gm' = val_points gm \<and> val_obs gm' = val_obs gm"
  by (auto simp: update_stddevs_def split: sum.splits)

text \<open>The state on which an epoch runs its early-stopping part, or with which it raises.\<close>

lemma epoch_cases:
  obtains (raised) e m gm where
      "epoch lib p r s = Raised e (s\<lparr>st := (st s)\<lparr>self := (optimizer_step lib (self (st s)))\<lparr>metrics := m\<rparr>\<rparr>,
                                     gp_metrics := gm\<rparr>)"
      "val_points gm = val_points (gp_metrics s)" "val_obs gm = val_obs (gp_metrics s)"
      "dom m = dom (metrics (self (st s)))"
    | (stopping) m gm y c where
      "epoch lib p r s = early_stopping p
         (s\<lparr>st := (st s)\<lparr>self := (optimizer_step lib (self (st s)))\<lparr>metrics := m\<rparr>\<rparr>,
            gp_metrics := gm, yielded := yielded s @ [y]\<rparr>)"
      "val_points gm = val_points (gp_metrics s)" "val_obs gm = val_obs (gp_metrics s)"
      "dom m = dom (metrics (self (st s)))"
      "optimize_cycle lib (self (st s)) = Inr c"
proof (cases "optimize_cycle lib (self (st s))")
  case (Inl e)
  have "epoch lib p r s = Raised e s" by (simp add: epoch_def Inl)
  then have "epoch lib p r s = Raised e (s\<lparr>st := (st s)\<lparr>self := (optimizer_step lib (self (st s)))
                 \<lparr>metrics := metrics (self (st s))\<rparr>\<rparr>, gp_metrics := gp_metrics s\<rparr>)"
    by (simp add: optimizer_step_Inl [OF Inl])
  then show ?thesis by (rule raised) simp_all
next
  case (Inr c)
  define t3 where "t3 = optimizer_step lib (self (st s))"
  define ms where "ms = lists (st s) r"
  define u1 where "u1 = (if set REQUIRES_MEAN \<inter> set ms \<noteq> {}
                            then update_mean lib t3 (gp_metrics s) else Inr (gp_metrics s))"
  define u2 where "u2 = (\<lambda>gm1. if set REQUIRES_STDDEV \<inter> set ms \<noteq> {}
                            then update_stddevs lib t3 gm1 else Inr gm1)"
  have d3: "dom (metrics t3) = dom (metrics (self (st s)))"
    by (simp add: t3_def optimizer_step_fields)
  have t3: "t3 = t3\<lparr>metrics := metrics t3\<rparr>" by simp
  have ep: "epoch lib p r s =
     (case u1 of
        Inl e \<Rightarrow> Raised e (s\<lparr>st := (st s)\<lparr>self := t3\<rparr>\<rparr>)
      | Inr gm1 \<Rightarrow>
          (case u2 gm1 of
             Inl e \<Rightarrow> Raised e (s\<lparr>st := (st s)\<lparr>self := t3\<rparr>, gp_metrics := gm1\<rparr>)
           | Inr gm2 \<Rightarrow>
               (case metric_dict_of lib t3 gm2 ms [] of
                  Inl e \<Rightarrow> Raised e (s\<lparr>st := (st s)\<lparr>self := t3\<rparr>, gp_metrics := gm2\<rparr>)
                | Inr d \<Rightarrow>
                    (case assign_metrics d t3 of
                       (Some e, t4) \<Rightarrow> Raised e (s\<lparr>st := (st s)\<lparr>self := t4\<rparr>, gp_metrics := gm2\<rparr>)
                     | (None, t4) \<Rightarrow>
                         early_stopping p
                           (s\<lparr>st := (st s)\<lparr>self := t4\<rparr>, gp_metrics := gm2,
                              yielded := yielded s @ [AList.update ''loss'' (Float (loss t4)) d]\<rparr>)))))"
    unfolding epoch_def Let_def t3_def ms_def u1_def u2_def by (simp add: Inr)
  show ?thesis
  proof (cases u1)
    case (Inl e)
    have "epoch lib p r s = Raised e (s\<lparr>st := (st s)\<lparr>self := t3\<lparr>metrics := metrics t3\<rparr>\<rparr>,
                                     gp_metrics := gp_metrics s\<rparr>)"
      by (simp add: ep Inl)
    then show ?thesis using _ _ d3 unfolding t3_def by (rule raised) simp_all
  next
    case u1: (Inr gm1)
    have g1: "val_points gm1 = val_points (gp_metrics s)" "val_obs gm1 = val_obs (gp_metrics s)"
      using u1 update_mean_frame [of lib t3 "gp_metrics s" gm1]
      by (auto simp: u1_def split: if_splits)
    show ?thesis
    proof (cases "u2 gm1")
      case (Inl e)
      have "epoch lib p r s = Raised e (s\<lparr>st := (st s)\<lparr>self := t3\<lparr>metrics := metrics t3\<rparr>\<rparr>,
                                     gp_metrics := gm1\<rparr>)"
        by (simp add: ep u1 Inl)
      then show ?thesis using g1 d3 unfolding t3_def by (rule raised)
    next
      case u2: (Inr gm2)
      have gm: "val_points gm2 = val_points (gp_metrics s)" "val_obs gm2 = val_obs (gp_metrics s)"
        using u2 update_stddevs_frame [of lib t3 gm1 gm2] g1
        by (auto simp: u2_def split: if_splits)
      show ?thesis
      proof (cases "metric_dict_of lib t3 gm2 ms []")
        case (Inl e)
        have "epoch lib p r s = Raised e (s\<lparr>st := (st s)\<lparr>self := t3\<lparr>metrics := metrics t3\<rparr>\<rparr>,
                                     gp_metrics := gm2\<rparr>)"
          by (simp add: ep u1 u2 Inl)
        then show ?thesis using gm d3 unfolding t3_def by (rule raised)
      next
        case d: (Inr d)
        obtain eo t4 where a: "assign_metrics d t3 = (eo, t4)" by (cases "assign_metrics d t3")
        have t4: "t4 = t3\<lparr>metrics := metrics t4\<rparr>"
          using assign_metrics_frame [of d t3] a by simp
        have d4: "dom (metrics t4) = dom (metrics (self (st s)))"
          using assign_metrics_dom [of d t3] a d3 by simp
        show ?thesis
        proof (cases eo)
          case (Some e)
          have "epoch lib p r s = Raised e (s\<lparr>st := (st s)\<lparr>self := t4\<rparr>, gp_metrics := gm2\<rparr>)"
            using a Some by (simp add: ep u1 u2 d)
          then have "epoch lib p r s = Raised e (s\<lparr>st := (st s)\<lparr>self := t3\<lparr>metrics := metrics t4\<rparr>\<rparr>,
                                     gp_metrics := gm2\<rparr>)"
            using t4 by simp
          then show ?thesis using gm d4 unfolding t3_def by (rule raised)
        next
          case None
          let ?y = "AList.update ''loss'' (Float (loss t4)) d"
          have "epoch lib p r s = early_stopping p
                 (s\<lparr>st := (st s)\<lparr>self := t4\<rparr>, gp_metrics := gm2, yielded := yielded s @ [?y]\<rparr>)"
            using a None by (simp add: ep u1 u2 d)
          then have "epoch lib p r s = early_stopping p
             (s\<lparr>st := (st s)\<lparr>self := t3\<lparr>metrics := metrics t4\<rparr>\<rparr>,
                gp_metrics := gm2, yielded := yielded s @ [?y]\<rparr>)"
            using t4 by simp
          then show ?thesis using gm d4 Inr unfolding t3_def by (rule stopping)
        qed
      qed
    qed
  qed
qed

lemma epoch_frame:
  "lists (st (outcome_state (epoch lib p r s))) = lists (st s)
   \<and> saved_models (st (outcome_state (epoch lib p r s))) = saved_models (st s)
   \<and> ckpt_manager (self (st (outcome_state (epoch lib p r s)))) = ckpt_manager (self (st s))
   \<and> val_points (gp_metrics (outcome_state (epoch lib p r s))) = val_points (gp_metrics s)
   \<and> val_obs (gp_metrics (outcome_state (epoch lib p r s))) = val_obs (gp_metrics s)
   \<and> dom (metrics (self (st (outcome_state (epoch lib p r s))))) = dom (metrics (self (st s)))"
proof (cases rule: epoch_cases [of lib p r s])
  case (raised e m gm)
  show ?thesis unfolding raised(1) using raised(2,3,4) by (simp add: optimizer_step_fields)
next
  case (stopping m gm y c)
  show ?thesis unfolding stopping(1) early_stopping_frame
    using stopping(2,3,4) by (simp add: optimizer_step_fields)
qed

lemma train_loop_Suc:
  "train_loop lib p r (Suc n) s =
     (case epoch lib p r s of Continue s' \<Rightarrow> train_loop lib p r n s'
      | Broke s' \<Rightarrow> Broke s' | Raised e s' \<Rightarrow> Raised e s')"
  by simp

lemma train_loop_frame:
  "lists (st (outcome_state (train_loop lib p r n s))) = lists (st s)
   \<and> saved_models (st (outcome_state (train_loop lib p r n s))) = saved_models (st s)
   \<and> ckpt_manager (self (st (outcome_state (train_loop lib p r n s)))) = ckpt_manager (self (st s))
   \<and> dom (metrics (self (st (outcome_state (train_loop lib p r n s))))) = dom (metrics (self (st s)))"
proof (induction n arbitrary: s)
  case 0
  show ?case by simp
next
  case (Suc n)
  show ?case
  proof (cases "epoch lib p r s")
    case (Continue s')
    have "outcome_state (epoch lib p r s) = s'" by (simp add: Continue)
    with epoch_frame [of lib p r s]
    have "lists (st s') = lists (st s)" "saved_models (st s') = saved_models (st s)"
      "ckpt_manager (self (st s')) = ckpt_manager (self (st s))"
      "dom (metrics (self (st s'))) = dom (metrics (self (st s)))" by simp_all
    with Suc.IH [of s'] show ?thesis by (simp add: Continue)
  next
    case (Broke s')
    have "outcome_state (epoch lib p r s) = s'" by (simp add: Broke)
    with epoch_frame [of lib p r s] show ?thesis by (simp add: Broke)
  next
    case (Raised e s')
    have "outcome_state (epoch lib p r s) = s'" by (simp add: Raised)
    with epoch_frame [of lib p r s] show ?thesis by (simp add: Raised)
  qed
qed

lemma save_model_fields:
  "lists (save_model d s) = lists s" "self (save_model d s) = self s"
  "ckpt_files (save_model d s) = ckpt_files s"
  by (simp_all add: save_model_def)

lemma train_model_final:
  assumes "train_setup lib points obs p r s0 = Inr s"
  shows "\<exists>s'. snd (snd (train_model lib points obs epochs p save_dir r s0)) = s'
           \<and> lists s' = lists (st s)
           \<and> dom (metrics (self s')) = dom (metrics (self (st s)))
           \<and> ckpt_manager (self s') = ckpt_manager (self (st s))"
proof -
  let ?o = "train_loop lib p r (nat epochs) s"
  have "snd (snd (train_model lib points obs epochs p save_dir r s0))
          = save_model save_dir (st (outcome_state ?o))
      \<or> snd (snd (train_model lib points obs epochs p save_dir r s0)) = st (outcome_state ?o)"
    by (cases ?o) (simp_all add: train_model_def assms)
  then show ?thesis using train_loop_frame [of lib p r "nat epochs" s]
    by (elim disjE) (simp_all add: save_model_fields)
qed



subsection \<open>Construction\<close>

lemma GPTrainer_init_ok_iff:
  "(\<exists>t. GPTrainer_init lib ips obs dir files = Inr t)
     \<longleftrightarrow> 2 \<le> length (shape ips) \<and> shape ips ! 1 \<noteq> 0"
  by (auto simp: GPTrainer_init_def Let_def split: option.splits)

text \<open>
  Claim C3, as amended. Construction compares nothing about the observations with the index
  points: it succeeds exactly when the index points have at least two dimensions and a
  feature dimension that is not zero, whatever the observations are, so it succeeds for
  observations of any other length whenever it succeeds at all.
\<close>

theorem construction_ignores_observation_count:
  "((\<exists>t. GPTrainer_init lib ips obs dir files = Inr t)
      \<longleftrightarrow> 2 \<le> length (shape ips) \<and> shape ips ! 1 \<noteq> 0)
   \<and> ((\<exists>t. GPTrainer_init lib ips obs dir files = Inr t)
      \<longleftrightarrow> (\<exists>t. GPTrainer_init lib ips obs' dir files = Inr t))"
  by (simp only: GPTrainer_init_ok_iff)

theorem construction_ignores_observation_count_witness:
  "\<exists>t. GPTrainer_init example_lib \<lparr>shape = [5, 1], elems = [0, 1, 2, 3, 4]\<rparr>
     \<lparr>shape = [5], elems = [0, 1, 2, 3, 4]\<rparr> None Map.empty = Inr (t :: nat gp_trainer)"
  using construction_ignores_observation_count
          [of example_lib "\<lparr>shape = [5, 1], elems = [0, 1, 2, 3, 4]\<rparr>"
              "\<lparr>shape = [5], elems = [0, 1, 2, 3, 4]\<rparr>" None Map.empty]
  by simp

lemma example_init:
  "GPTrainer_init example_lib \<lparr>shape = [5, 1], elems = [0, 1, 2, 3, 4]\<rparr>
     \<lparr>shape = [5], elems = [0, 1, 2, 3, 4]\<rparr> None Map.empty = Inr (example_trainer None)"
  by (simp add: GPTrainer_init_def example_trainer_def example_lib_def truthy_str_def)

text \<open>
  Claim C3 as stated fails: five index points with four observations construct a trainer.
\<close>

theorem construction_mismatch_counterexample:
  "\<exists>t. GPTrainer_init example_lib \<lparr>shape = [5, 1], elems = [0, 1, 2, 3, 4]\<rparr>
     \<lparr>shape = [4], elems = [0, 1, 2, 3]\<rparr> None Map.empty = Inr (t :: nat gp_trainer)"
  by (simp add: GPTrainer_init_def truthy_str_def)

subsection \<open>Prediction\<close>

text \<open>
  Claim C9, as amended. \<open>predict\<close> mutates nothing: whatever the points, and whether the
  library raises or not, the program state after the call is the state before it (the
  trainer with its amplitude, length scale, step counter, loss and metrics), and so it is
  after any number of calls. The regression model is the one of the trainer's kernel
  (its current amplitude, length scale and feature dimensions), of the points, and of the
  trainer's observation index points and observations. When the library builds it and
  computes its mean and its standard deviation, \<open>predict\<close> returns that pair; when one of
  these three calls raises, \<open>predict\<close> raises its error.
\<close>

theorem predict_is_pure:
  assumes "g = \<lparr>gprm_kernel = \<lparr>k_amplitude = amplitude (self s),
                                  k_length_scale = length_scale (self s),
                                  k_feature_ndims = feature_ndims (self s)\<rparr>,
                 gprm_index_points = points,
                 gprm_observation_index_points = observation_index_points (self s),
                 gprm_observations = observations (self s)\<rparr>"
  shows "(gprm_init lib g = None \<and> gprm_mean lib g = Inr m \<and> gprm_stddev lib g = Inr sd
            \<longrightarrow> predict lib points s = (Inr (m, sd), s))
       \<and> (gprm_init lib g = Some e
            \<or> (gprm_init lib g = None \<and> gprm_mean lib g = Inl e)
            \<or> (gprm_init lib g = None \<and> (\<exists>m'. gprm_mean lib g = Inr m') \<and> gprm_stddev lib g = Inl e)
            \<longrightarrow> predict lib points s = (Inl e, s))
       \<and> snd (predict lib points s) = s
       \<and> foldl (\<lambda>s' p. snd (predict lib p s')) s ps = s"
proof -
  have g: "regression_model (self s) points = g"
    by (simp add: assms regression_model_def kernel_of_def)
  have 1: "\<And>q s'. snd (predict lib q s') = s'"
    by (simp add: predict_def get_model_def split: option.splits sum.splits)
  have 2: "foldl (\<lambda>s' p. snd (predict lib p s')) s ps = s"
    by (induction ps) (simp_all add: 1)
  have 3: "gprm_init lib g = None \<and> gprm_mean lib g = Inr m \<and> gprm_stddev lib g = Inr sd
            \<longrightarrow> predict lib points s = (Inr (m, sd), s)"
    by (simp add: predict_def get_model_def g)
  have 4: "gprm_init lib g = Some e
            \<or> (gprm_init lib g = None \<and> gprm_mean lib g = Inl e)
            \<or> (gprm_init lib g = None \<and> (\<exists>m'. gprm_mean lib g = Inr m') \<and> gprm_stddev lib g = Inl e)
            \<longrightarrow> predict lib points s = (Inl e, s)"
    by (auto simp: predict_def get_model_def g)
  from 3 4 1 2 show ?thesis by simp
qed

lemma example_state_simps:
  "lists (example_state dir) 1 = [''bogus'']"
  "lists (example_state dir) (Suc 0) = [''bogus'']"
  "lists (example_state dir) 0 = []"
  "self (example_state dir) = example_trainer dir"
  "metrics (example_trainer dir) ''nll'' = Some NaN"
  "training_steps (example_trainer dir) = 0"
  "ckpt_manager (example_trainer dir) = dir"
  by (simp_all add: example_state_def example_trainer_def initial_metrics_def)

theorem predict_is_pure_witness:
  "predict example_lib example_points (example_state None) = (Inr ([0], [1]), example_state None)
   \<and> predict checked_lib \<lparr>shape = [1, 2], elems = [0, 0]\<rparr> (example_state None)
       = (Inl (InvalidArgumentError ''Incompatible shapes''), example_state None)"
  using predict_is_pure
          [where s = "example_state None" and points = example_points and lib = example_lib
             and m = "[0]" and sd = "[1]", OF refl]
        predict_is_pure
          [where s = "example_state None" and points = "\<lparr>shape = [1, 2], elems = [0, 0]\<rparr>"
             and lib = checked_lib and e = "InvalidArgumentError ''Incompatible shapes''", OF refl]
  by (simp add: example_lib_def checked_lib_def example_state_simps example_trainer_def)

text \<open>
  Claim C9 as stated fails: \<open>predict\<close> does not return a pair for every tensor of points.
  For the example trainer, whose index points have one feature dimension, and points of
  two feature dimensions, a library that checks the shapes as TensorFlow Probability does
  refuses to build the regression model, and \<open>predict\<close> raises.
\<close>

theorem predict_raises_counterexample:
  "fst (predict checked_lib \<lparr>shape = [1, 2], elems = [0, 0]\<rparr> (example_state None))
     = Inl (InvalidArgumentError ''Incompatible shapes'')"
  by (simp add: predict_def get_model_def regression_model_def checked_lib_def example_lib_def
        example_state_def example_trainer_def)

subsection \<open>The list of metric names\<close>



subsection \<open>A metric name outside the vocabulary\<close>








text \<open>Every trainer that \<open>__init__\<close> builds has the five metric variables, and
  \<open>train_model\<close> keeps the keys of \<open>self.metrics\<close>.\<close>

lemma restore_metrics_dom:
  "dom (metrics t) = dom initial_metrics \<Longrightarrow> dom (metrics (restore c t)) = dom initial_metrics"
  by (auto simp: restore_def initial_metrics_dom)

lemma GPTrainer_init_metrics_dom:
  assumes "GPTrainer_init lib ips obs dir files = Inr t"
  shows "dom (metrics t) = dom initial_metrics"
proof -
  define t0 :: "'a gp_trainer" where "t0 = \<lparr>observation_index_points = ips, observations = obs,
                   amplitude = Fin 1, length_scale = Fin 1, feature_ndims = shape ips ! 1,
                   optimizer = adam lib, training_steps = 0, loss = NaN,
                   metrics = initial_metrics, ckpt_manager = None\<rparr>"
  have d: "dom (metrics (t0\<lparr>ckpt_manager := dir\<rparr>)) = dom initial_metrics" by (simp add: t0_def)
  have "t = t0 \<or> t = t0\<lparr>ckpt_manager := dir\<rparr> \<or> (\<exists>c. t = restore c (t0\<lparr>ckpt_manager := dir\<rparr>))"
    using assms unfolding GPTrainer_init_def Let_def t0_def [symmetric]
    by (auto split: if_splits option.splits)
  then show ?thesis
  proof (elim disjE exE)
    assume "t = t0" then show ?thesis by (simp add: t0_def)
  next
    assume "t = t0\<lparr>ckpt_manager := dir\<rparr>" then show ?thesis using d by simp
  next
    fix c assume "t = restore c (t0\<lparr>ckpt_manager := dir\<rparr>)"
    then show ?thesis using restore_metrics_dom [OF d, of c] by simp
  qed
qed

lemma train_model_metrics_dom:
  "dom (metrics (self (snd (snd (train_model lib points obs epochs p save_dir r s0)))))
     = dom (metrics (self s0))"
proof (cases "train_setup lib points obs p r s0")
  case (Inl x)
  then have "self (snd x) = self s0"
    by (auto simp: train_setup_def Let_def split: option.splits sum.splits if_splits)
  then show ?thesis by (cases x) (simp add: train_model_def Inl)
next
  case (Inr s)
  have "self (st s) = self s0"
    using Inr by (auto simp: train_setup_def Let_def split: option.splits sum.splits if_splits)
  with train_model_final [OF Inr, of epochs save_dir] show ?thesis by simp
qed




lemma example_metrics:
  "metrics (example_trainer dir) = initial_metrics" "metrics mismatched_trainer = initial_metrics"
  by (simp_all add: example_trainer_def mismatched_trainer_def)

lemma example_optimize_cycle:
  "optimize_cycle example_lib (example_trainer dir)
     = Inr (Fin 0, (example_trainer dir)\<lparr>amplitude := Fin 2, length_scale := Fin 1, optimizer := 1\<rparr>)"
  by (simp add: optimize_cycle_def example_lib_def example_trainer_def kernel_of_def)

lemma example_optimizer_step:
  "amplitude (optimizer_step example_lib (example_trainer dir)) = Fin 2"
  "optimizer (optimizer_step example_lib (example_trainer dir)) = 1"
  "loss (optimizer_step example_lib (example_trainer dir)) = Fin 0"
  "training_steps (optimizer_step example_lib (example_trainer dir)) = 1"
  "length_scale (optimizer_step example_lib (example_trainer dir)) = Fin 1"
  by (simp_all add: optimizer_step_def example_optimize_cycle) (simp_all add: example_trainer_def)

lemma example_GPMetrics_init:
  "GPMetrics_init example_lib points obs t
     = Inr \<lparr>val_points = points, val_obs = obs, mean = [0], stddevs = [1]\<rparr>"
  by (simp add: GPMetrics_init_def get_model_def update_mean_def update_stddevs_def example_lib_def)





subsection \<open>Early stopping\<close>

lemma example_cycle:
  "optimize_cycle example_lib t
     = Inr (Fin 0, t\<lparr>amplitude := fl_add (amplitude t) (Fin 1), length_scale := length_scale t,
                      optimizer := Suc (optimizer t)\<rparr>)"
  by (simp add: optimize_cycle_def example_lib_def)

lemma example_step:
  "training_steps (optimizer_step example_lib t) = training_steps t + 1"
  "loss (optimizer_step example_lib t) = Fin 0"
  "amplitude (optimizer_step example_lib t) = fl_add (amplitude t) (Fin 1)"
  "length_scale (optimizer_step example_lib t) = length_scale t"
  by (simp_all add: optimizer_step_def example_cycle)

lemma example_nll: "nll example_lib t gm = Inr (Fin 1)"
  by (simp add: nll_def example_lib_def)

text \<open>An epoch of the example library that is asked for \<open>nll\<close> alone.\<close>

lemma example_epoch:
  assumes "lists (st s) r = [''nll'']" and "metrics (self (st s)) ''nll'' = Some v"
  shows "epoch example_lib p r s =
     early_stopping p
       (s\<lparr>st := (st s)\<lparr>self := (optimizer_step example_lib (self (st s)))
                              \<lparr>metrics := (metrics (self (st s)))(''nll'' \<mapsto> Fin 1)\<rparr>\<rparr>,
          gp_metrics := gp_metrics s,
          yielded := yielded s @ [[(''nll'', Float (Fin 1)), (''loss'', Float (Fin 0))]]\<rparr>)"
  using assms
  by (simp add: epoch_def Let_def REQUIRES_MEAN_def REQUIRES_STDDEV_def getattr_def example_nll
        lift_value_def optimizer_step_fields example_cycle example_step)

lemma early_stopping_rule:
  assumes "px \<noteq> 0" and "metrics (self (st sx)) ''nll'' = Some vx"
  shows "early_stopping (Some px) sx =
     (if fl_lt vx (best_val_nll sx)
      then Continue (sx\<lparr>best_val_nll := vx, steps_since_improvement := 1, st := ckpt_save (st sx)\<rparr>)
      else if px \<le> steps_since_improvement sx + 1
      then Broke (sx\<lparr>steps_since_improvement := steps_since_improvement sx + 1\<rparr>)
      else Continue (sx\<lparr>steps_since_improvement := steps_since_improvement sx + 1\<rparr>))"
  using assms by (simp add: early_stopping_def truthy_int_def Let_def)

lemma train_loop_2:
  "train_loop lib p r (Suc (Suc n)) s =
     (case epoch lib p r s of
        Continue s1 \<Rightarrow>
          (case epoch lib p r s1 of
             Continue s2 \<Rightarrow> train_loop lib p r n s2
           | Broke s2 \<Rightarrow> Broke s2 | Raised e s2 \<Rightarrow> Raised e s2)
      | Broke s1 \<Rightarrow> Broke s1 | Raised e s1 \<Rightarrow> Raised e s1)"
  by (simp split: outcome.splits)

lemma train_loop_3:
  "train_loop lib p r (Suc (Suc (Suc n))) s =
     (case epoch lib p r s of
        Continue s1 \<Rightarrow>
          (case epoch lib p r s1 of
             Continue s2 \<Rightarrow>
               (case epoch lib p r s2 of
                  Continue s3 \<Rightarrow> train_loop lib p r n s3
                | Broke s3 \<Rightarrow> Broke s3 | Raised e s3 \<Rightarrow> Raised e s3)
           | Broke s2 \<Rightarrow> Broke s2 | Raised e s2 \<Rightarrow> Raised e s2)
      | Broke s1 \<Rightarrow> Broke s1 | Raised e s1 \<Rightarrow> Raised e s1)"
  by (simp split: outcome.splits)

text \<open>The example run after its set-up: the default list holds \<open>nll\<close>, the best NLL is
  infinite.\<close>

lemma example_setup:
  assumes "p \<noteq> 0"
  shows "train_setup example_lib example_points [0] (Some p) default_metrics (example_state None)
     = Inr \<lparr>st = (example_state None)\<lparr>lists := (lists (example_state None))(0 := [''nll''])\<rparr>,
            gp_metrics = \<lparr>val_points = example_points, val_obs = [0], mean = [0], stddevs = [1]\<rparr>,
            best_val_nll = PInf, steps_since_improvement = 1, yielded = []\<rparr>"
  using assms
  by (simp add: train_setup_def example_state_simps truthy_int_def example_GPMetrics_init Let_def
        default_metrics_def)

lemma example_patience_three:
  "\<exists>s'. train_loop example_lib (Some 3) 0 1000
       \<lparr>st = (example_state None)\<lparr>lists := (lists (example_state None))(0 := [''nll''])\<rparr>,
        gp_metrics = \<lparr>val_points = example_points, val_obs = [0], mean = [0], stddevs = [1]\<rparr>,
        best_val_nll = PInf, steps_since_improvement = 1, yielded = []\<rparr> = Broke s'
     \<and> yielded s' = replicate 3 [(''nll'', Float (Fin 1)), (''loss'', Float (Fin 0))]
     \<and> training_steps (self (st s')) = 3 \<and> steps_since_improvement s' = 3"
proof -
  have n: "(1000::nat) = Suc (Suc (Suc 997))" by simp
  show ?thesis
    by (subst n, subst train_loop_3)
       (simp add: example_epoch early_stopping_def truthy_int_def ckpt_save_def example_state_simps
          example_step optimizer_step_fields numeral_3_eq_3)
qed

lemma example_patience_two:
  "\<exists>s'. train_loop example_lib (Some 2) 0 1000
       \<lparr>st = (example_state None)\<lparr>lists := (lists (example_state None))(0 := [''nll''])\<rparr>,
        gp_metrics = \<lparr>val_points = example_points, val_obs = [0], mean = [0], stddevs = [1]\<rparr>,
        best_val_nll = PInf, steps_since_improvement = 1, yielded = []\<rparr> = Broke s'
     \<and> yielded s' = replicate 2 [(''nll'', Float (Fin 1)), (''loss'', Float (Fin 0))]
     \<and> training_steps (self (st s')) = 2"
proof -
  have n: "(1000::nat) = Suc (Suc 998)" by simp
  show ?thesis
    by (subst n, subst train_loop_2)
       (simp add: example_epoch early_stopping_def truthy_int_def ckpt_save_def example_state_simps
          example_step optimizer_step_fields numeral_2_eq_2)
qed

lemma example_patience_one:
  "\<exists>s'. train_loop example_lib (Some 1) 0 1000
       \<lparr>st = (example_state None)\<lparr>lists := (lists (example_state None))(0 := [''nll''])\<rparr>,
        gp_metrics = \<lparr>val_points = example_points, val_obs = [0], mean = [0], stddevs = [1]\<rparr>,
        best_val_nll = PInf, steps_since_improvement = 1, yielded = []\<rparr> = Broke s'
     \<and> yielded s' = replicate 2 [(''nll'', Float (Fin 1)), (''loss'', Float (Fin 0))]
     \<and> training_steps (self (st s')) = 2"
proof -
  have n: "(1000::nat) = Suc (Suc 998)" by simp
  show ?thesis
    by (subst n, subst train_loop_2)
       (simp add: example_epoch early_stopping_def truthy_int_def ckpt_save_def example_state_simps
          example_step optimizer_step_fields numeral_2_eq_2)
qed

lemma example_train_model:
  assumes "p \<noteq> 0"
    and "train_loop example_lib (Some p) 0 1000
       \<lparr>st = (example_state None)\<lparr>lists := (lists (example_state None))(0 := [''nll''])\<rparr>,
        gp_metrics = \<lparr>val_points = example_points, val_obs = [0], mean = [0], stddevs = [1]\<rparr>,
        best_val_nll = PInf, steps_since_improvement = 1, yielded = []\<rparr> = Broke s'"
  shows "train_model example_lib example_points [0] 1000 (Some p) None default_metrics
           (example_state None) = (None, yielded s', st s')"
  using assms(2)
  by (simp add: train_model_def example_setup [OF assms(1)])
     (simp add: default_metrics_def save_model_def truthy_str_def)

text \<open>
  Claim C2 fails on the code, by an off-by-one of the code against its own documentation
  (\<open>patience\<close> is ``the number of epochs after which to stop training if no improvement is
  seen'', and the message printed at the stop counts ``steps since NLL improvement''): the
  counter starts at 1 and is set to 1, not 0, by an improvement. In the example run the
  validation NLL is 1 at every epoch and the best value starts at infinity, so the first
  epoch improves and no later one does. With \<open>patience=3\<close> the run of 1000 epochs stops
  after its third epoch, two epochs after the improvement (the claim has the stop after the
  fourth): three dictionaries are yielded and the step counter is 3. With \<open>patience=2\<close> and
  with \<open>patience=1\<close> alike it stops after the second epoch.
\<close>

theorem patience_three_stops_after_step_three:
  "fst (train_model example_lib example_points [0] 1000 (Some 3) None default_metrics
         (example_state None)) = None
   \<and> fst (snd (train_model example_lib example_points [0] 1000 (Some 3) None default_metrics
         (example_state None)))
       = replicate 3 [(''nll'', Float (Fin 1)), (''loss'', Float (Fin 0))]
   \<and> training_steps (self (snd (snd (train_model example_lib example_points [0] 1000 (Some 3)
         None default_metrics (example_state None))))) = 3
   \<and> fst (snd (train_model example_lib example_points [0] 1000 (Some 2) None default_metrics
         (example_state None)))
       = replicate 2 [(''nll'', Float (Fin 1)), (''loss'', Float (Fin 0))]
   \<and> fst (snd (train_model example_lib example_points [0] 1000 (Some 1) None default_metrics
         (example_state None)))
       = replicate 2 [(''nll'', Float (Fin 1)), (''loss'', Float (Fin 0))]"
proof -
  from example_patience_three obtain s3 where
    b3: "train_loop example_lib (Some 3) 0 1000
       \<lparr>st = (example_state None)\<lparr>lists := (lists (example_state None))(0 := [''nll''])\<rparr>,
        gp_metrics = \<lparr>val_points = example_points, val_obs = [0], mean = [0], stddevs = [1]\<rparr>,
        best_val_nll = PInf, steps_since_improvement = 1, yielded = []\<rparr> = Broke s3"
    and y3: "yielded s3 = replicate 3 [(''nll'', Float (Fin 1)), (''loss'', Float (Fin 0))]"
      "training_steps (self (st s3)) = 3"
    by blast
  from example_patience_two obtain s2 where
    b2: "train_loop example_lib (Some 2) 0 1000
       \<lparr>st = (example_state None)\<lparr>lists := (lists (example_state None))(0 := [''nll''])\<rparr>,
        gp_metrics = \<lparr>val_points = example_points, val_obs = [0], mean = [0], stddevs = [1]\<rparr>,
        best_val_nll = PInf, steps_since_improvement = 1, yielded = []\<rparr> = Broke s2"
    and y2: "yielded s2 = replicate 2 [(''nll'', Float (Fin 1)), (''loss'', Float (Fin 0))]"
    by blast
  from example_patience_one obtain s1 where
    b1: "train_loop example_lib (Some 1) 0 1000
       \<lparr>st = (example_state None)\<lparr>lists := (lists (example_state None))(0 := [''nll''])\<rparr>,
        gp_metrics = \<lparr>val_points = example_points, val_obs = [0], mean = [0], stddevs = [1]\<rparr>,
        best_val_nll = PInf, steps_since_improvement = 1, yielded = []\<rparr> = Broke s1"
    and y1: "yielded s1 = replicate 2 [(''nll'', Float (Fin 1)), (''loss'', Float (Fin 0))]"
    by blast
  have t3: "train_model example_lib example_points [0] 1000 (Some 3) None default_metrics
           (example_state None) = (None, yielded s3, st s3)"
    by (rule example_train_model [OF _ b3]) simp
  have t2: "train_model example_lib example_points [0] 1000 (Some 2) None default_metrics
           (example_state None) = (None, yielded s2, st s2)"
    by (rule example_train_model [OF _ b2]) simp
  have t1: "train_model example_lib example_points [0] 1000 (Some 1) None default_metrics
           (example_state None) = (None, yielded s1, st s1)"
    by (rule example_train_model [OF _ b1]) simp
  show ?thesis unfolding t1 t2 t3 using y1 y2 y3 by simp
qed

subsection \<open>Checkpoints\<close>

lemma optimize_cycle_metrics_update:
  "optimize_cycle lib (t\<lparr>metrics := m\<rparr>)
     = (case optimize_cycle lib t of Inl e \<Rightarrow> Inl e | Inr (l, t1) \<Rightarrow> Inr (l, t1\<lparr>metrics := m\<rparr>))"
  by (simp add: optimize_cycle_def kernel_of_def split: sum.splits prod.splits)

lemma optimizer_step_metrics_update:
  "optimizer_step lib (t\<lparr>metrics := m\<rparr>) = (optimizer_step lib t)\<lparr>metrics := m\<rparr>"
  by (simp add: optimizer_step_def optimize_cycle_metrics_update split: sum.splits prod.splits)

lemma epoch_Continue_cycle:
  assumes "epoch lib p r s = Continue s'"
  shows "\<exists>l t1. optimize_cycle lib (self (st s)) = Inr (l, t1)"
proof (cases rule: epoch_cases [of lib p r s])
  case (raised e m gm)
  with assms show ?thesis by simp
next
  case (stopping m gm y c)
  then show ?thesis by (cases c) simp
qed

lemma optimizer_steps_metrics_update:
  "(optimizer_step lib ^^ k) (t\<lparr>metrics := m\<rparr>) = ((optimizer_step lib ^^ k) t)\<lparr>metrics := m\<rparr>"
  by (induction k) (simp_all add: optimizer_step_metrics_update)

lemma early_stopping_checkpoint:
  assumes "ckpt_manager (self (st s)) = Some d"
  shows "self (st (outcome_state (early_stopping p s))) = self (st s)
     \<and> (case early_stopping p s of
          Continue s' \<Rightarrow>
            ckpt_files (st s') =
              (if fl_lt (metric_variable (self (st s)) ''nll'') (best_val_nll s)
               then (ckpt_files (st s))(d \<mapsto> snapshot (self (st s))) else ckpt_files (st s))
        | Broke s' \<Rightarrow> ckpt_files (st s') = ckpt_files (st s)
        | Raised e s' \<Rightarrow> ckpt_files (st s') = ckpt_files (st s))"
  using assms
  by (simp add: early_stopping_def ckpt_save_def metric_variable_def Let_def split: option.splits)

lemma epoch_checkpoint_self:
  "\<exists>m. self (st (outcome_state (epoch lib p r s))) = (optimizer_step lib (self (st s)))\<lparr>metrics := m\<rparr>"
proof (cases rule: epoch_cases [of lib p r s])
  case (raised e m gm)
  show ?thesis unfolding raised(1) by simp blast
next
  case (stopping m gm y c)
  show ?thesis unfolding stopping(1) early_stopping_frame by simp blast
qed

lemma epoch_checkpoint:
  assumes "ckpt_manager (self (st s)) = Some d"
  shows "(\<exists>m. self (st (outcome_state (epoch lib p r s))) = (optimizer_step lib (self (st s)))\<lparr>metrics := m\<rparr>)
     \<and> (case epoch lib p r s of
          Continue s' \<Rightarrow>
            ckpt_files (st s') =
              (if fl_lt (metric_variable (self (st s')) ''nll'') (best_val_nll s)
               then (ckpt_files (st s))(d \<mapsto> snapshot (self (st s'))) else ckpt_files (st s))
        | Broke s' \<Rightarrow> ckpt_files (st s') = ckpt_files (st s)
        | Raised e s' \<Rightarrow> ckpt_files (st s') = ckpt_files (st s))"
proof (cases rule: epoch_cases [of lib p r s])
  case (raised e m gm)
  show ?thesis unfolding raised(1) by simp blast
next
  case (stopping m gm y c)
  define s1 where "s1 = s\<lparr>st := (st s)\<lparr>self := (optimizer_step lib (self (st s)))\<lparr>metrics := m\<rparr>\<rparr>,
            gp_metrics := gm, yielded := yielded s @ [y]\<rparr>"
  have e: "epoch lib p r s = early_stopping p s1" unfolding stopping(1) s1_def by (rule refl)
  have c: "ckpt_manager (self (st s1)) = Some d"
    by (simp add: s1_def optimizer_step_fields assms)
  have f: "self (st s1) = (optimizer_step lib (self (st s)))\<lparr>metrics := m\<rparr>"
    "ckpt_files (st s1) = ckpt_files (st s)" "best_val_nll s1 = best_val_nll s"
    by (simp_all add: s1_def)
  from early_stopping_checkpoint [OF c, of p]
  have self: "self (st (outcome_state (early_stopping p s1))) = self (st s1)"
    and ck: "(case early_stopping p s1 of
          Continue s' \<Rightarrow>
            ckpt_files (st s') =
              (if fl_lt (metric_variable (self (st s1)) ''nll'') (best_val_nll s1)
               then (ckpt_files (st s1))(d \<mapsto> snapshot (self (st s1))) else ckpt_files (st s1))
        | Broke s' \<Rightarrow> ckpt_files (st s') = ckpt_files (st s1)
        | Raised e s' \<Rightarrow> ckpt_files (st s') = ckpt_files (st s1))"
    by simp_all
  have 1: "\<exists>m. self (st (outcome_state (epoch lib p r s))) = (optimizer_step lib (self (st s)))\<lparr>metrics := m\<rparr>"
    unfolding e self f(1) by (rule exI) (rule refl)
  have 2: "(case epoch lib p r s of
          Continue s' \<Rightarrow>
            ckpt_files (st s') =
              (if fl_lt (metric_variable (self (st s')) ''nll'') (best_val_nll s)
               then (ckpt_files (st s))(d \<mapsto> snapshot (self (st s'))) else ckpt_files (st s))
        | Broke s' \<Rightarrow> ckpt_files (st s') = ckpt_files (st s)
        | Raised e s' \<Rightarrow> ckpt_files (st s') = ckpt_files (st s))"
  proof (cases "early_stopping p s1")
    case (Continue s')
    have "self (st s') = self (st s1)" using self by (simp add: Continue)
    then show ?thesis using ck by (simp add: e Continue f(2,3))
  next
    case (Broke s')
    then show ?thesis using ck by (simp add: e f(2))
  next
    case (Raised x s')
    then show ?thesis using ck by (simp add: e f(2))
  qed
  from 1 2 show ?thesis by (rule conjI)
qed

lemma train_loop_checkpoint:
  assumes "ckpt_manager (self (st s)) = Some d"
    and "ckpt_files (st s) d = (case acc of None \<Rightarrow> base | Some t \<Rightarrow> Some (snapshot t))"
  shows "ckpt_files (st (outcome_state (train_loop lib p r n s))) d =
           (case last_checkpointed lib p r n s acc of
              None \<Rightarrow> base | Some t \<Rightarrow> Some (snapshot t))"
  using assms
proof (induction n arbitrary: s acc)
  case 0
  then show ?case by simp
next
  case (Suc n)
  note ec = epoch_checkpoint [OF Suc.prems(1), of lib p r]
  show ?case
  proof (cases "epoch lib p r s")
    case (Continue s')
    have os: "outcome_state (epoch lib p r s) = s'" by (simp add: Continue)
    have cm: "ckpt_manager (self (st s')) = Some d"
      using epoch_frame [of lib p r s] Suc.prems(1) unfolding os by simp
    let ?acc = "if ckpt_manager (self (st s')) \<noteq> None
                \<and> fl_lt (metric_variable (self (st s')) ''nll'') (best_val_nll s)
             then Some (self (st s')) else acc"
    have ck: "ckpt_files (st s') =
              (if fl_lt (metric_variable (self (st s')) ''nll'') (best_val_nll s)
               then (ckpt_files (st s))(d \<mapsto> snapshot (self (st s'))) else ckpt_files (st s))"
      using ec by (simp add: Continue)
    have "ckpt_files (st s') d = (case ?acc of None \<Rightarrow> base | Some t \<Rightarrow> Some (snapshot t))"
      using Suc.prems(2) by (simp add: ck cm)
    from Suc.IH [OF cm this] show ?thesis by (simp add: Continue)
  next
    case (Broke s')
    then show ?thesis using ec Suc.prems(2) by simp
  next
    case (Raised e s')
    then show ?thesis using ec Suc.prems(2) by simp
  qed
qed

lemma last_checkpointed_trace:
  assumes "last_checkpointed lib p r n s acc = Some t"
  shows "acc = Some t
     \<or> (\<exists>k m. 1 \<le> k \<and> k \<le> n \<and> t = ((optimizer_step lib ^^ k) (self (st s)))\<lparr>metrics := m\<rparr>
           \<and> training_steps t = training_steps (self (st s)) + of_nat k)"
  using assms
proof (induction n arbitrary: s acc)
  case 0
  then show ?case by simp
next
  case (Suc n)
  show ?case
  proof (cases "epoch lib p r s")
    case (Continue s')
    have os: "outcome_state (epoch lib p r s) = s'" by (simp add: Continue)
    from epoch_checkpoint_self [of lib p r s] obtain m1 where
      m1: "self (st s') = (optimizer_step lib (self (st s)))\<lparr>metrics := m1\<rparr>"
      by (auto simp: Continue)
    from epoch_Continue_cycle [OF Continue] obtain l t1 where
      oc: "optimize_cycle lib (self (st s)) = Inr (l, t1)" by blast
    have ts: "training_steps (self (st s')) = training_steps (self (st s)) + 1"
      by (simp add: m1 optimizer_step_Inr(1) [OF oc])
    let ?acc = "if ckpt_manager (self (st s')) \<noteq> None
                \<and> fl_lt (metric_variable (self (st s')) ''nll'') (best_val_nll s)
             then Some (self (st s')) else acc"
    have "last_checkpointed lib p r n s' ?acc = Some t" using Suc.prems by (simp add: Continue)
    from Suc.IH [OF this]
    consider (a) "?acc = Some t"
      | (b) k m where "1 \<le> k" "k \<le> n" "t = ((optimizer_step lib ^^ k) (self (st s')))\<lparr>metrics := m\<rparr>"
          "training_steps t = training_steps (self (st s')) + of_nat k"
      by blast
    then show ?thesis
    proof cases
      case a
      then have "acc = Some t \<or> t = self (st s')" by (simp split: if_splits)
      then show ?thesis
      proof
        assume "acc = Some t" then show ?thesis by simp
      next
        assume t: "t = self (st s')"
        then have "t = ((optimizer_step lib ^^ 1) (self (st s)))\<lparr>metrics := m1\<rparr>" by (simp add: m1)
        moreover have "(1::nat) \<le> 1" "1 \<le> Suc n" by simp_all
        moreover have "training_steps t = training_steps (self (st s)) + of_nat 1"
          by (simp add: t ts)
        ultimately show ?thesis by blast
      qed
    next
      case b
      have "t = ((optimizer_step lib ^^ Suc k) (self (st s)))\<lparr>metrics := m\<rparr>"
        by (simp add: b(3) m1 optimizer_steps_metrics_update funpow_swap1)
      moreover have "1 \<le> Suc k" "Suc k \<le> Suc n" using b(2) by simp_all
      moreover have "training_steps t = training_steps (self (st s)) + of_nat (Suc k)"
        by (simp add: b(4) ts)
      ultimately show ?thesis by blast
    qed
  next
    case (Broke s')
    then show ?thesis using Suc.prems by simp
  next
    case (Raised e s')
    then show ?thesis using Suc.prems by simp
  qed
qed

lemma restore_snapshot:
  assumes "files d = Some (snapshot t)" "d \<noteq> []" "2 \<le> length (shape ips)" "shape ips ! 1 \<noteq> 0"
  shows "\<exists>t'. GPTrainer_init lib ips obs (Some d) files = Inr t'
           \<and> amplitude t' = amplitude t \<and> length_scale t' = length_scale t
           \<and> training_steps t' = training_steps t \<and> loss t' = loss t"
  using assms
  by (simp add: GPTrainer_init_def restore_def snapshot_def truthy_str_def Let_def)

lemma train_model_checkpoint:
  assumes cm: "ckpt_manager (self s0) = Some d"
    and lc: "last_checkpoint lib points obs epochs p r s0 = Some t"
  shows "ckpt_files (snd (snd (train_model lib points obs epochs p save_dir r s0))) d
           = Some (snapshot t)
     \<and> (\<exists>k m. 1 \<le> k \<and> k \<le> nat epochs
           \<and> t = ((optimizer_step lib ^^ k) (self s0))\<lparr>metrics := m\<rparr>
           \<and> training_steps t = training_steps (self s0) + of_nat k)"
proof -
  from lc obtain s where s: "train_setup lib points obs p r s0 = Inr s"
    and l: "last_checkpointed lib p r (nat epochs) s None = Some t"
    by (auto simp: last_checkpoint_def split: sum.splits)
  have self: "self (st s) = self s0"
    using s by (auto simp: train_setup_def Let_def split: option.splits if_splits sum.splits)
  let ?o = "train_loop lib p r (nat epochs) s"
  have f: "ckpt_files (snd (snd (train_model lib points obs epochs p save_dir r s0)))
          = ckpt_files (st (outcome_state ?o))"
    by (cases ?o) (simp_all add: train_model_def s save_model_fields)
  have "ckpt_files (st s) d = (case None :: 'a gp_trainer option of None \<Rightarrow> ckpt_files (st s) d
                               | Some t \<Rightarrow> Some (snapshot t))"
    by simp
  from train_loop_checkpoint [OF _ this, of lib p r "nat epochs"] cm
  have 1: "ckpt_files (snd (snd (train_model lib points obs epochs p save_dir r s0))) d
           = Some (snapshot t)"
    by (simp add: f self l)
  from last_checkpointed_trace [OF l]
  have 2: "\<exists>k m. 1 \<le> k \<and> k \<le> nat epochs
           \<and> t = ((optimizer_step lib ^^ k) (self s0))\<lparr>metrics := m\<rparr>
           \<and> training_steps t = training_steps (self s0) + of_nat k"
    by (simp add: self)
  from 1 2 show ?thesis by (rule conjI)
qed

lemma checkpoint_round_trip_aux:
  assumes "ckpt_manager (self s0) = Some d" and "d \<noteq> []"
    and "2 \<le> length (shape ips)" and "shape ips ! 1 \<noteq> 0"
    and "last_checkpoint lib points obs epochs patience r s0 = Some t"
  shows "\<exists>t' k. GPTrainer_init lib ips new_obs (Some d)
                  (ckpt_files (snd (snd (train_model lib points obs epochs patience save_dir r s0))))
                = Inr t'
           \<and> amplitude t' = amplitude t \<and> length_scale t' = length_scale t
           \<and> training_steps t' = training_steps t \<and> loss t' = loss t
           \<and> 1 \<le> k \<and> k \<le> nat epochs
           \<and> amplitude t = amplitude ((optimizer_step lib ^^ k) (self s0))
           \<and> length_scale t = length_scale ((optimizer_step lib ^^ k) (self s0))
           \<and> training_steps t = training_steps (self s0) + of_nat k
           \<and> loss t = loss ((optimizer_step lib ^^ k) (self s0))"
proof -
  from train_model_checkpoint [OF assms(1,5), of save_dir]
  obtain k m where f: "ckpt_files (snd (snd (train_model lib points obs epochs patience save_dir r s0))) d
           = Some (snapshot t)"
    and k: "1 \<le> k" "k \<le> nat epochs" and t: "t = ((optimizer_step lib ^^ k) (self s0))\<lparr>metrics := m\<rparr>"
    and ts: "training_steps t = training_steps (self s0) + of_nat k"
    by blast
  from restore_snapshot [where files = "ckpt_files (snd (snd (train_model lib points obs epochs patience save_dir r s0)))"
         and d = d and t = t and ips = ips and lib = lib and obs = new_obs, OF f assms(2,3,4)]
  obtain t' where t': "GPTrainer_init lib ips new_obs (Some d)
                  (ckpt_files (snd (snd (train_model lib points obs epochs patience save_dir r s0))))
                = Inr t'"
    "amplitude t' = amplitude t" "length_scale t' = length_scale t"
    "training_steps t' = training_steps t" "loss t' = loss t"
    by blast
  have "amplitude t = amplitude ((optimizer_step lib ^^ k) (self s0))"
    "length_scale t = length_scale ((optimizer_step lib ^^ k) (self s0))"
    "training_steps t = training_steps (self s0) + of_nat k"
    "loss t = loss ((optimizer_step lib ^^ k) (self s0))"
    using ts by (simp_all add: t)
  with t' k show ?thesis by blast
qed

lemma example_last_checkpoint:
  "last_checkpoint example_lib example_points [0] 2 None default_metrics
       (example_state (Some ''ckpt''))
     = Some ((optimizer_step example_lib (example_trainer (Some ''ckpt'')))
               \<lparr>metrics := initial_metrics(''nll'' \<mapsto> Fin 1)\<rparr>)"
proof -
  have ts: "train_setup example_lib example_points [0] None default_metrics
              (example_state (Some ''ckpt''))
     = Inr \<lparr>st = (example_state (Some ''ckpt''))
                    \<lparr>lists := (lists (example_state (Some ''ckpt'')))(0 := [''nll''])\<rparr>,
            gp_metrics = \<lparr>val_points = example_points, val_obs = [0], mean = [0], stddevs = [1]\<rparr>,
            best_val_nll = PInf, steps_since_improvement = 1, yielded = []\<rparr>"
    by (simp add: train_setup_def example_state_simps truthy_int_def example_GPMetrics_init Let_def
          default_metrics_def)
  have n: "nat 2 = Suc (Suc 0)" by simp
  show ?thesis
    unfolding last_checkpoint_def ts n
    by (simp add: default_metrics_def example_epoch early_stopping_def ckpt_save_def
          metric_variable_def truthy_int_def optimizer_step_fields example_state_simps)
       (simp add: example_metrics)
qed

text \<open>
  Claim C8. Let a trainer with a checkpoint manager on a directory \<open>d\<close> run \<open>train_model\<close>,
  and let \<open>t\<close> be the trainer as it was at the last checkpointed step of that run. Then a
  fresh \<open>GPTrainer\<close> constructed with the same directory, from the checkpoint files the run
  left, has the amplitude, the length scale, the step counter and the loss of \<open>t\<close>; and \<open>t\<close>
  is the trainer after some number \<open>k\<close> of optimizer steps of the run, \<open>1 \<le> k \<le> epochs\<close>.
  The values are the same, not only close.
\<close>

theorem checkpoint_round_trip:
  assumes "ckpt_manager (self s0) = Some d" and "d \<noteq> []"
    and "2 \<le> length (shape ips)" and "shape ips ! 1 \<noteq> 0"
    and "last_checkpoint lib points obs epochs patience r s0 = Some t"
  shows "\<exists>t' k. GPTrainer_init lib ips new_obs (Some d)
                  (ckpt_files (snd (snd (train_model lib points obs epochs patience save_dir r s0))))
                = Inr t'
           \<and> amplitude t' = amplitude t \<and> length_scale t' = length_scale t
           \<and> training_steps t' = training_steps t \<and> loss t' = loss t
           \<and> 1 \<le> k \<and> k \<le> nat epochs
           \<and> amplitude t = amplitude ((optimizer_step lib ^^ k) (self s0))
           \<and> length_scale t = length_scale ((optimizer_step lib ^^ k) (self s0))
           \<and> training_steps t = training_steps (self s0) + of_nat k
           \<and> loss t = loss ((optimizer_step lib ^^ k) (self s0))"
  using assms by (rule checkpoint_round_trip_aux)

theorem checkpoint_round_trip_witness:
  "last_checkpoint example_lib example_points [0] 2 None default_metrics
       (example_state (Some ''ckpt''))
     = Some ((optimizer_step example_lib (example_trainer (Some ''ckpt'')))
               \<lparr>metrics := initial_metrics(''nll'' \<mapsto> Fin 1)\<rparr>)
   \<and> (\<exists>t'. GPTrainer_init example_lib (observation_index_points (example_trainer None))
              (observations (example_trainer None)) (Some ''ckpt'')
              (ckpt_files (snd (snd (train_model example_lib example_points [0] 2 None None
                 default_metrics (example_state (Some ''ckpt''))))))
            = Inr t'
          \<and> amplitude t' = Fin 2 \<and> length_scale t' = Fin 1 \<and> training_steps t' = 1
          \<and> loss t' = Fin 0)"
  using checkpoint_round_trip
          [where ?s0.0 = "example_state (Some ''ckpt'')" and d = "''ckpt''"
             and ips = "observation_index_points (example_trainer None)"
             and new_obs = "observations (example_trainer None)"
             and lib = example_lib and points = example_points and obs = "[0]" and epochs = 2
             and patience = None and r = default_metrics and save_dir = None
             and t = "(optimizer_step example_lib (example_trainer (Some ''ckpt'')))
               \<lparr>metrics := initial_metrics(''nll'' \<mapsto> Fin 1)\<rparr>"]
  by (simp add: example_last_checkpoint example_state_simps example_optimizer_step)
     (auto simp: example_trainer_def)

end
